theory Spec2Isabelle
  imports Main "HOL-Library.Sublist"
begin

section \<open>JavaScript values and objects\<close>

text \<open>
  The connector works on plain JavaScript objects whose fields hold strings.  An object is a
  map from field names to values; reading a field that is absent yields \<open>undefined\<close>,
  which is \<open>None\<close> here.  The object spread \<^verbatim>\<open>{...a, ...b}\<close> is \<open>a ++ b\<close>: for a
  key of both, the right operand wins.
\<close>

type_synonym obj = "string \<Rightarrow> string option"

text \<open>String conversion as done by template literals and by the \<^verbatim>\<open>URLSearchParams\<close>
  constructor: \<open>undefined\<close> becomes the text \<^verbatim>\<open>undefined\<close>.\<close>

definition jsToString :: "string option \<Rightarrow> string" where
  "jsToString v = (case v of None \<Rightarrow> ''undefined'' | Some s \<Rightarrow> s)"

text \<open>Truthiness of a value of type \<^verbatim>\<open>string | undefined | null\<close> and of type
  \<^verbatim>\<open>boolean | undefined | null\<close>: the empty string, \<open>false\<close>, \<open>undefined\<close> and
  \<open>null\<close> are falsy.\<close>

definition truthyString :: "string option \<Rightarrow> bool" where
  "truthyString v = (case v of None \<Rightarrow> False | Some s \<Rightarrow> s \<noteq> [])"

definition truthyBool :: "bool option \<Rightarrow> bool" where
  "truthyBool v = (case v of None \<Rightarrow> False | Some b \<Rightarrow> b)"

text \<open>\<^verbatim>\<open>conditional\<close> of \<^verbatim>\<open>@silverhand/essentials\<close> returns its argument when it is
  truthy and \<open>undefined\<close> otherwise.  Its argument here is either a falsy value or an object
  literal (always truthy), modelled as \<open>None\<close> and \<open>Some\<close>.  Spreading \<open>undefined\<close> adds
  no field.\<close>

definition conditional :: "obj option \<Rightarrow> obj option" where
  "conditional v = v"

definition spread :: "obj option \<Rightarrow> obj" where
  "spread v = (case v of None \<Rightarrow> Map.empty | Some m \<Rightarrow> m)"

section \<open>Errors\<close>

datatype ConnectorErrorCodes =
  NotImplemented | InvalidConfig | InvalidAuthCode | InvalidAccessToken | InvalidIdToken

text \<open>A \<^verbatim>\<open>ConnectorError\<close> carries its code and, when given, a message.\<close>

datatype error = ConnectorError ConnectorErrorCodes "string option"

fun errorCode :: "error \<Rightarrow> ConnectorErrorCodes" where
  "errorCode (ConnectorError c m) = c"

section \<open>Data model\<close>

text \<open>The session record handed to the session storage (\<^verbatim>\<open>SingleSignOnConnectorSession\<close>).\<close>

record SingleSignOnConnectorSession =
  nonce :: string
  redirectUri :: string
  connectorId :: string
  state :: string

text \<open>The claims of an identity token: the seven that \<^verbatim>\<open>getUserInfo\<close> reads, and the
  four that the validation of the token inspects.\<close>

record IdTokenClaims =
  sub :: string
  name :: "string option"
  picture :: "string option"
  email :: "string option"
  email_verified :: "bool option"
  phone :: "string option"
  phone_verified :: "bool option"
  issuerClaim :: string
  audience :: "string list"
  expiration :: int
  nonceClaim :: "string option"

record TokenResponse =
  idToken :: string

section \<open>Effects\<close>

text \<open>
  What happens outside the connector is recorded, in order, in the world.  The connector
  itself records the calls it makes to its own helpers: the discovery fetch, the token
  exchange and the validation of the identity token (which fetches the key set).  The
  session-persistence callback is the caller's: it acts on the world itself, and a storage
  records the session it is given.  The type \<open>'d\<close> is the type of the callback payload,
  which the connector passes on unread (\<^verbatim>\<open>unknown\<close>).
\<close>

datatype 'd effect =
  FetchOidcConfig "string option"
| SetSession SingleSignOnConnectorSession
| FetchToken obj 'd string
| GetIdTokenClaims string obj string

record 'd World =
  effects :: "'d effect list"
  idCount :: nat

text \<open>
  The functions of \<^verbatim>\<open>./utils.js\<close> and the source of identifiers are parameters of the
  model: each is a function of its arguments that returns its result or the error it throws.
\<close>

record 'd Env =
  fetchOidcConfig :: "string option \<Rightarrow> error + obj"
  fetchToken :: "obj \<Rightarrow> 'd \<Rightarrow> string \<Rightarrow> error + TokenResponse"
  getIdTokenClaims :: "string \<Rightarrow> obj \<Rightarrow> string \<Rightarrow> error + IdTokenClaims"
  idSource :: "nat \<Rightarrow> string"

text \<open>The injected callback \<^verbatim>\<open>setSession\<close>: given the session record it acts on the
  world (it is the one that stores the session) and either resolves or rejects.\<close>

type_synonym 'd CreateSingleSignOnSession =
  "SingleSignOnConnectorSession \<Rightarrow> 'd World \<Rightarrow> (error + unit) \<times> 'd World"

definition logEffect :: "'d effect \<Rightarrow> 'd World \<Rightarrow> 'd World" where
  "logEffect e w = w\<lparr>effects := effects w @ [e]\<rparr>"

text \<open>Modelled from the spec: \<^verbatim>\<open>generateStandardId\<close> of \<^verbatim>\<open>@logto/shared\<close>, whose
  code is not part of the sources at hand.  The spec asks for a random nonce, distinct per
  call: each call draws the next identifier of the source \<open>idSource\<close>.\<close>

definition generateStandardId :: "'d Env \<Rightarrow> 'd World \<Rightarrow> string \<times> 'd World" where
  "generateStandardId env w = (idSource env (idCount w), w\<lparr>idCount := Suc (idCount w)\<rparr>)"

section \<open>The query string\<close>

text \<open>
  \<^verbatim>\<open>URLSearchParams.toString()\<close> serialises name-value pairs in the
  \<^verbatim>\<open>application/x-www-form-urlencoded\<close> format: ASCII letters and digits and the
  characters \<^verbatim>\<open>* - . _\<close> stay, a space becomes \<^verbatim>\<open>+\<close>, every other byte becomes
  \<^verbatim>\<open>%XX\<close> with upper-case hexadecimal digits; pairs are joined by \<^verbatim>\<open>&\<close>.
\<close>

definition isUrlSafe :: "char \<Rightarrow> bool" where
  "isUrlSafe c = (let n = (of_char c :: nat) in
     (48 \<le> n \<and> n \<le> 57) \<or> (65 \<le> n \<and> n \<le> 90) \<or> (97 \<le> n \<and> n \<le> 122)
     \<or> n = 42 \<or> n = 45 \<or> n = 46 \<or> n = 95)"

definition hexDigit :: "nat \<Rightarrow> char" where
  "hexDigit n = ''0123456789ABCDEF'' ! n"

definition urlencodeByte :: "char \<Rightarrow> string" where
  "urlencodeByte c =
     (if isUrlSafe c then [c]
      else if c = CHR '' '' then ''+''
      else [CHR ''%'', hexDigit ((of_char c :: nat) div 16), hexDigit ((of_char c :: nat) mod 16)])"

definition urlencode :: "string \<Rightarrow> string" where
  "urlencode s = concat (map urlencodeByte s)"

fun joinAmp :: "string list \<Rightarrow> string" where
  "joinAmp [] = []"
| "joinAmp [p] = p"
| "joinAmp (p # q # ps) = p @ ''&'' @ joinAmp (q # ps)"

definition encodePair :: "string \<times> string \<Rightarrow> string" where
  "encodePair p = urlencode (fst p) @ ''='' @ urlencode (snd p)"

definition URLSearchParams_toString :: "(string \<times> string) list \<Rightarrow> string" where
  "URLSearchParams_toString ps = joinAmp (map encodePair ps)"

text \<open>
  The reader of that format, as a receiver of the URL applies it to the query string: split
  at \<^verbatim>\<open>&\<close> and skip empty pieces, split each piece at its first \<^verbatim>\<open>=\<close>, turn
  \<^verbatim>\<open>+\<close> into a space, and decode \<^verbatim>\<open>%XX\<close> where \<open>XX\<close> are two hexadecimal
  digits (a \<^verbatim>\<open>%\<close> that is followed by anything else stays).
\<close>

definition hexValue :: "char \<Rightarrow> nat option" where
  "hexValue c = (let n = (of_char c :: nat) in
     if 48 \<le> n \<and> n \<le> 57 then Some (n - 48)
     else if 65 \<le> n \<and> n \<le> 70 then Some (n - 55)
     else if 97 \<le> n \<and> n \<le> 102 then Some (n - 87)
     else None)"

fun percentDecode :: "string \<Rightarrow> string" where
  "percentDecode [] = []"
| "percentDecode (c # cs) =
     (if c = CHR ''%'' then
        (case cs of
           h # l # rest \<Rightarrow>
             (case (hexValue h, hexValue l) of
                (Some a, Some b) \<Rightarrow> char_of (16 * a + b) # percentDecode rest
              | _ \<Rightarrow> c # percentDecode cs)
         | _ \<Rightarrow> c # percentDecode cs)
      else c # percentDecode cs)"

definition plusToSpace :: "string \<Rightarrow> string" where
  "plusToSpace s = map (\<lambda>c. if c = CHR ''+'' then CHR '' '' else c) s"

definition urldecode :: "string \<Rightarrow> string" where
  "urldecode s = percentDecode (plusToSpace s)"

fun splitOn :: "char \<Rightarrow> string \<Rightarrow> string list" where
  "splitOn d [] = [[]]"
| "splitOn d (c # cs) =
     (if c = d then [] # splitOn d cs
      else (case splitOn d cs of p # ps \<Rightarrow> (c # p) # ps | [] \<Rightarrow> [[c]]))"

definition parsePair :: "string \<Rightarrow> string \<times> string" where
  "parsePair q =
     (urldecode (takeWhile (\<lambda>c. c \<noteq> CHR ''='') q),
      urldecode (drop 1 (dropWhile (\<lambda>c. c \<noteq> CHR ''='') q)))"

definition URLSearchParams_parse :: "string \<Rightarrow> (string \<times> string) list" where
  "URLSearchParams_parse s =
     map parsePair (filter (\<lambda>q. q \<noteq> []) (splitOn (CHR ''&'') s))"

text \<open>
  The parts of a URL, as a receiver splits it: the fragment starts at the first \<^verbatim>\<open>#\<close>;
  in what precedes the fragment, the query is what follows the first \<^verbatim>\<open>?\<close>.  The
  parameters of a URL are the pairs read from its query (\<^verbatim>\<open>new URL(url).searchParams\<close>).
\<close>

definition stripFragment :: "string \<Rightarrow> string" where
  "stripFragment url = takeWhile (\<lambda>c. c \<noteq> CHR ''#'') url"

definition urlBeforeQuery :: "string \<Rightarrow> string" where
  "urlBeforeQuery url = takeWhile (\<lambda>c. c \<noteq> CHR ''?'') (stripFragment url)"

definition urlQuery :: "string \<Rightarrow> string" where
  "urlQuery url = drop 1 (dropWhile (\<lambda>c. c \<noteq> CHR ''?'') (stripFragment url))"

definition searchParams :: "string \<Rightarrow> (string \<times> string) list" where
  "searchParams url = URLSearchParams_parse (urlQuery url)"

text \<open>\<^verbatim>\<open>snakecaseKeys\<close> renames the keys of an object from camel case to snake case: an
  upper-case letter inside a key becomes an underscore and the lower-case letter.\<close>

definition isUpper :: "char \<Rightarrow> bool" where
  "isUpper c = (let n = (of_char c :: nat) in 65 \<le> n \<and> n \<le> 90)"

definition toLower :: "char \<Rightarrow> char" where
  "toLower c = (if isUpper c then char_of ((of_char c :: nat) + 32) else c)"

fun snakeCase :: "string \<Rightarrow> string" where
  "snakeCase [] = []"
| "snakeCase (c # cs) =
     (if isUpper c then CHR ''_'' # toLower c # snakeCase cs else c # snakeCase cs)"

definition snakecaseKeys :: "(string \<times> 'v) list \<Rightarrow> (string \<times> 'v) list" where
  "snakecaseKeys kvs = map (\<lambda>(k, v). (snakeCase k, v)) kvs"

section \<open>The connector\<close>

text \<open>\<^verbatim>\<open>getOidcConfig\<close>: fetch the provider's configuration for the issuer of the static
  configuration and spread it over the static configuration.\<close>

definition getOidcConfig :: "'d Env \<Rightarrow> obj \<Rightarrow> 'd World \<Rightarrow> (error + obj) \<times> 'd World" where
  "getOidcConfig env config w =
     (let issuer = config ''issuer'';
          w1 = logEffect (FetchOidcConfig issuer) w
      in case fetchOidcConfig env issuer of
           Inl e \<Rightarrow> (Inl e, w1)
         | Inr oidcConfig \<Rightarrow> (Inr (config ++ oidcConfig), w1))"

text \<open>The object literal that \<^verbatim>\<open>getAuthorizationUrl\<close> gives to \<^verbatim>\<open>URLSearchParams\<close>,
  as the list of its entries in insertion order.\<close>

definition queryParameters :: "obj \<Rightarrow> string \<Rightarrow> string \<Rightarrow> string \<Rightarrow> (string \<times> string) list" where
  "queryParameters oidcConfig st nonce' redirect =
     [(''state'', st), (''nonce'', nonce')]
     @ snakecaseKeys
         [(''clientId'', jsToString (oidcConfig ''clientId'')),
          (''responseType'', ''code''),
          (''redirectUri'', redirect)]
     @ [(''scope'', jsToString (oidcConfig ''scope''))]"

text \<open>\<^verbatim>\<open>getAuthorizationUrl\<close>.  The callback is \<open>None\<close> when the caller passes none
  (the \<^verbatim>\<open>assert\<close> at the head of the method then throws).\<close>

definition getAuthorizationUrl ::
  "'d Env \<Rightarrow> obj \<Rightarrow> string \<Rightarrow> string \<Rightarrow> string \<Rightarrow> 'd CreateSingleSignOnSession option
     \<Rightarrow> 'd World \<Rightarrow> (error + string) \<times> 'd World" where
  "getAuthorizationUrl env config st redirect connector setSession w =
     (case setSession of
        None \<Rightarrow>
          (Inl (ConnectorError NotImplemented
                  (Some ''Connector session storage is not implemented.'')), w)
      | Some store \<Rightarrow>
          (case getOidcConfig env config w of
             (Inl e, w1) \<Rightarrow> (Inl e, w1)
           | (Inr oidcConfig, w1) \<Rightarrow>
               (case generateStandardId env w1 of
                  (nonce', w2) \<Rightarrow>
                    (case store \<lparr>nonce = nonce', redirectUri = redirect,
                                  connectorId = connector, state = st\<rparr> w2 of
                       (Inl e, w3) \<Rightarrow> (Inl e, w3)
                     | (Inr u, w3) \<Rightarrow>
                         (Inr (jsToString (oidcConfig ''authorizationEndpoint'') @ ''?''
                               @ URLSearchParams_toString
                                   (queryParameters oidcConfig st nonce' redirect)),
                          w3)))))"

text \<open>The object that \<^verbatim>\<open>getUserInfo\<close> returns, built from the claims.  An
  operand \<^verbatim>\<open>x && {x}\<close> is the object when \<open>x\<close> is truthy and a falsy value
  otherwise.\<close>

definition userInfo :: "IdTokenClaims \<Rightarrow> obj" where
  "userInfo c =
     [''id'' \<mapsto> sub c]
     ++ spread (conditional
          (if truthyString (name c) then Some [''name'' \<mapsto> jsToString (name c)] else None))
     ++ spread (conditional
          (if truthyString (picture c) then Some [''avatar'' \<mapsto> jsToString (picture c)]
           else None))
     ++ spread (conditional
          (if truthyString (email c) \<and> truthyBool (email_verified c)
           then Some [''email'' \<mapsto> jsToString (email c)] else None))
     ++ spread (conditional
          (if truthyString (phone c) \<and> truthyBool (phone_verified c)
           then Some [''phone'' \<mapsto> jsToString (phone c)] else None))"

text \<open>\<^verbatim>\<open>getUserInfo\<close>: resolve the configuration, exchange the code for the identity
  token with the redirect URI of the session, validate the token against the nonce of the
  session, and map the claims.\<close>

definition getUserInfo ::
  "'d Env \<Rightarrow> obj \<Rightarrow> SingleSignOnConnectorSession \<Rightarrow> 'd \<Rightarrow> 'd World
     \<Rightarrow> (error + obj) \<times> 'd World" where
  "getUserInfo env config connectorSession data w =
     (case getOidcConfig env config w of
        (Inl e, w1) \<Rightarrow> (Inl e, w1)
      | (Inr oidcConfig, w1) \<Rightarrow>
          (let w2 = logEffect (FetchToken oidcConfig data (redirectUri connectorSession)) w1
           in case fetchToken env oidcConfig data (redirectUri connectorSession) of
                Inl e \<Rightarrow> (Inl e, w2)
              | Inr response \<Rightarrow>
                  (let w3 = logEffect
                              (GetIdTokenClaims (idToken response) oidcConfig
                                 (nonce connectorSession)) w2
                   in case getIdTokenClaims env (idToken response) oidcConfig
                             (nonce connectorSession) of
                        Inl e \<Rightarrow> (Inl e, w3)
                      | Inr claims \<Rightarrow> (Inr (userInfo claims), w3))))"

section \<open>Validation of the identity token\<close>

text \<open>
  Modelled from the spec: \<^verbatim>\<open>getIdTokenClaims\<close> of \<^verbatim>\<open>./utils.js\<close>, whose code is not
  part of the sources at hand.  The spec gives its inputs (the token, the resolved
  configuration and the nonce of the session) and a sequence of five mandatory checks that
  stops at the first failure, each failure being \<open>InvalidIdToken\<close>: the signature, the
  issuer (equal to the configured one), the audience (contains the client identifier), the
  expiration (the current time is before it) and the nonce (equal to the stored one).  The
  cryptographic check, the decoding of the token and the clock are collaborators.
\<close>

record Verifier =
  verifySignature :: "string \<Rightarrow> obj \<Rightarrow> bool"
  decodeClaims :: "string \<Rightarrow> IdTokenClaims"
  currentTime :: int

datatype ValidationStep = Signature | Issuer | Audience | Expiration | Nonce

text \<open>Modelled from the spec: the order of the checks, as section 4.4 numbers them.\<close>

definition validationSequence :: "ValidationStep list" where
  "validationSequence = [Signature, Issuer, Audience, Expiration, Nonce]"

text \<open>Modelled from the spec: what each check of section 4.4 demands of the token.\<close>

definition stepHolds :: "Verifier \<Rightarrow> string \<Rightarrow> obj \<Rightarrow> string \<Rightarrow> ValidationStep \<Rightarrow> bool" where
  "stepHolds v token oidcConfig stored step =
     (let c = decodeClaims v token
      in case step of
           Signature \<Rightarrow> verifySignature v token oidcConfig
         | Issuer \<Rightarrow> oidcConfig ''issuer'' = Some (issuerClaim c)
         | Audience \<Rightarrow>
             (case oidcConfig ''clientId'' of
                None \<Rightarrow> False
              | Some client \<Rightarrow> client \<in> set (audience c))
         | Expiration \<Rightarrow> currentTime v < expiration c
         | Nonce \<Rightarrow> nonceClaim c = Some stored)"

text \<open>Modelled from the spec: the checks run in order and stop at the first failure.\<close>

definition firstFailure :: "Verifier \<Rightarrow> string \<Rightarrow> obj \<Rightarrow> string \<Rightarrow> ValidationStep option" where
  "firstFailure v token oidcConfig stored =
     find (\<lambda>step. \<not> stepHolds v token oidcConfig stored step) validationSequence"

text \<open>Modelled from the spec: \<^verbatim>\<open>getIdTokenClaims\<close>; a failed check is the error
  \<open>InvalidIdToken\<close>, and when no check fails the result is the decoded claim set.\<close>

definition specGetIdTokenClaims ::
  "Verifier \<Rightarrow> string \<Rightarrow> obj \<Rightarrow> string \<Rightarrow> error + IdTokenClaims" where
  "specGetIdTokenClaims v token oidcConfig stored =
     (case firstFailure v token oidcConfig stored of
        Some step \<Rightarrow> Inl (ConnectorError InvalidIdToken None)
      | None \<Rightarrow> Inr (decodeClaims v token))"

section \<open>Reading the effects\<close>

text \<open>The sessions handed to the callback and the redirect URIs sent in token exchanges, in
  order.\<close>

fun sessionStored :: "'d effect \<Rightarrow> SingleSignOnConnectorSession option" where
  "sessionStored (SetSession s) = Some s"
| "sessionStored e = None"

fun redirectUriSent :: "'d effect \<Rightarrow> string option" where
  "redirectUriSent (FetchToken c d r) = Some r"
| "redirectUriSent e = None"

definition storedSessions :: "'d effect list \<Rightarrow> SingleSignOnConnectorSession list" where
  "storedSessions es = List.map_filter sessionStored es"

definition sentRedirectUris :: "'d effect list \<Rightarrow> string list" where
  "sentRedirectUris es = List.map_filter redirectUriSent es"

section \<open>Example data\<close>

text \<open>The scenario of the specification: the static configuration of a connector, the
  discovery document of its provider, and an environment that serves a given discovery
  document for the issuer and validates tokens with a given validator.  The callback payload
  of the example provider is the identity token that the exchange returns.\<close>

definition exampleConfig :: obj where
  "exampleConfig =
     [''clientId'' \<mapsto> ''c1'', ''clientSecret'' \<mapsto> ''s1'',
      ''issuer'' \<mapsto> ''https://idp.example/oidc'', ''scope'' \<mapsto> ''openid profile email'']"

definition exampleDiscovery :: obj where
  "exampleDiscovery =
     [''authorizationEndpoint'' \<mapsto> ''https://idp.example/authorize'',
      ''tokenEndpoint'' \<mapsto> ''https://idp.example/token'']"

definition exampleEnv ::
  "obj \<Rightarrow> (string \<Rightarrow> obj \<Rightarrow> string \<Rightarrow> error + IdTokenClaims) \<Rightarrow> string Env" where
  "exampleEnv disc validate =
     \<lparr>fetchOidcConfig =
        (\<lambda>i. if i = Some ''https://idp.example/oidc'' then Inr disc
             else Inl (ConnectorError InvalidConfig None)),
      fetchToken = (\<lambda>c d r. Inr \<lparr>idToken = d\<rparr>),
      getIdTokenClaims = validate,
      idSource = (\<lambda>n. ''n'' @ replicate n (CHR ''x''))\<rparr>"

definition emptyWorld :: "string World" where
  "emptyWorld = \<lparr>effects = [], idCount = 0\<rparr>"

text \<open>A session storage that records the session it is given.\<close>

definition rememberSession :: "'d CreateSingleSignOnSession" where
  "rememberSession s w = (Inr (), logEffect (SetSession s) w)"

definition exampleSession :: SingleSignOnConnectorSession where
  "exampleSession =
     \<lparr>nonce = ''n'', redirectUri = ''https://app.example/cb'', connectorId = ''conn1'',
      state = ''st1''\<rparr>"

text \<open>A discovery document that, as discovery documents do, names its issuer, here with a
  trailing slash that the static configuration does not have.\<close>

definition discoveryWithIssuer :: obj where
  "discoveryWithIssuer =
     [''authorizationEndpoint'' \<mapsto> ''https://idp.example/authorize'',
      ''tokenEndpoint'' \<mapsto> ''https://idp.example/token'',
      ''issuer'' \<mapsto> ''https://idp.example/oidc/'']"

text \<open>A static configuration that carries endpoints of its own.\<close>

definition configWithEndpoints :: obj where
  "configWithEndpoints =
     [''clientId'' \<mapsto> ''c1'', ''clientSecret'' \<mapsto> ''s1'',
      ''issuer'' \<mapsto> ''https://idp.example/oidc'', ''scope'' \<mapsto> ''openid'',
      ''authorizationEndpoint'' \<mapsto> ''https://static.example/authorize'',
      ''tokenEndpoint'' \<mapsto> ''https://static.example/token'']"

text \<open>Validators that reject every token and that accept every token with given claims.\<close>

definition rejectAll :: "string \<Rightarrow> obj \<Rightarrow> string \<Rightarrow> error + IdTokenClaims" where
  "rejectAll t c n = Inl (ConnectorError InvalidIdToken None)"

definition acceptAs :: "IdTokenClaims \<Rightarrow> string \<Rightarrow> obj \<Rightarrow> string \<Rightarrow> error + IdTokenClaims" where
  "acceptAs claims t c n = Inr claims"

text \<open>Claims of a user with a verified email address and an unverified phone number, and
  claims whose optional values are all empty strings, marked as verified.\<close>

definition goodClaims :: IdTokenClaims where
  "goodClaims =
     \<lparr>sub = ''u1'', name = Some ''Ann'', picture = None,
      email = Some ''a@b.com'', email_verified = Some True,
      phone = Some ''100200'', phone_verified = Some False,
      issuerClaim = ''https://idp.example/oidc'', audience = [''c1''],
      expiration = 2000, nonceClaim = Some ''n''\<rparr>"

definition blankClaims :: IdTokenClaims where
  "blankClaims =
     \<lparr>sub = ''u2'', name = Some [], picture = Some [],
      email = Some [], email_verified = Some True,
      phone = Some [], phone_verified = Some True,
      issuerClaim = ''https://idp.example/oidc'', audience = [''c1''],
      expiration = 2000, nonceClaim = Some ''n''\<rparr>"

text \<open>A verifier at time 1000 that rejects the signature of one token and decodes four
  others to claims with a stale nonce, a foreign issuer, a past expiration, and the issuer
  that \<open>discoveryWithIssuer\<close> names.\<close>

definition exampleVerifier :: Verifier where
  "exampleVerifier =
     \<lparr>verifySignature = (\<lambda>t c. t \<noteq> ''forged''),
      decodeClaims =
        (\<lambda>t. if t = ''replayed'' then goodClaims\<lparr>nonceClaim := Some ''stale''\<rparr>
             else if t = ''foreign'' then goodClaims\<lparr>issuerClaim := ''https://evil.example''\<rparr>
             else if t = ''expired'' then goodClaims\<lparr>expiration := 1000\<rparr>
             else if t = ''slashed'' then goodClaims\<lparr>issuerClaim := ''https://idp.example/oidc/''\<rparr>
             else goodClaims),
      currentTime = 1000\<rparr>"

text \<open>A provider whose token endpoint accepts one redirect URI only, and a static
  configuration that carries a redirect URI of its own, a different one.\<close>

definition strictEnv ::
  "obj \<Rightarrow> (string \<Rightarrow> obj \<Rightarrow> string \<Rightarrow> error + IdTokenClaims) \<Rightarrow> string Env" where
  "strictEnv disc validate =
     \<lparr>fetchOidcConfig =
        (\<lambda>i. if i = Some ''https://idp.example/oidc'' then Inr disc
             else Inl (ConnectorError InvalidConfig None)),
      fetchToken =
        (\<lambda>c d r. if r = ''https://app.example/cb'' then Inr \<lparr>idToken = d\<rparr>
               else Inl (ConnectorError InvalidAuthCode None)),
      getIdTokenClaims = validate,
      idSource = (\<lambda>n. ''n'' @ replicate n (CHR ''x''))\<rparr>"

definition configWithRedirect :: obj where
  "configWithRedirect =
     [''clientId'' \<mapsto> ''c1'', ''clientSecret'' \<mapsto> ''s1'',
      ''issuer'' \<mapsto> ''https://idp.example/oidc'', ''scope'' \<mapsto> ''openid profile email'',
      ''redirectUri'' \<mapsto> ''https://other.example/cb'']"

text \<open>A discovery document whose authorization endpoint has a query of its own.\<close>

definition discoveryWithQuery :: obj where
  "discoveryWithQuery =
     [''authorizationEndpoint'' \<mapsto> ''https://idp.example/authorize?tenant=t1'',
      ''tokenEndpoint'' \<mapsto> ''https://idp.example/token'']"

section \<open>Properties\<close>

text \<open>
  C3.  Without a session-persistence callback, \<^verbatim>\<open>getAuthorizationUrl\<close> fails with
  \<open>NotImplemented\<close> and the world is unchanged: no discovery fetch, no session stored, no
  identifier drawn.
\<close>

theorem getAuthorizationUrl_no_callback:
  "getAuthorizationUrl env config st redirect connector None w =
     (Inl (ConnectorError NotImplemented
             (Some ''Connector session storage is not implemented.'')), w)"
  by (simp add: getAuthorizationUrl_def)

subsection \<open>Resolving the configuration\<close>

lemma getOidcConfig_ok:
  "fetchOidcConfig env (config ''issuer'') = Inr disc \<Longrightarrow>
   getOidcConfig env config w =
     (Inr (config ++ disc), logEffect (FetchOidcConfig (config ''issuer'')) w)"
  by (simp add: getOidcConfig_def Let_def)

lemma getOidcConfig_error:
  "fetchOidcConfig env (config ''issuer'') = Inl e \<Longrightarrow>
   getOidcConfig env config w = (Inl e, logEffect (FetchOidcConfig (config ''issuer'')) w)"
  by (simp add: getOidcConfig_def Let_def)

text \<open>
  C7, as the code has it.  When the discovery fetch succeeds, the resolved configuration is
  the static configuration overlaid with the discovered one: every field that the discovery
  document specifies has the discovered value, whether or not the static configuration
  specifies it too, and every other field has its static value.
\<close>

theorem getOidcConfig_discovered_wins:
  assumes "fetchOidcConfig env (config ''issuer'') = Inr disc"
  shows "fst (getOidcConfig env config w) = Inr (config ++ disc)
         \<and> (\<forall>k v. disc k = Some v \<longrightarrow> (config ++ disc) k = Some v)
         \<and> (\<forall>k. disc k = None \<longrightarrow> (config ++ disc) k = config k)"
  using assms by (simp add: getOidcConfig_ok map_add_def)

theorem getOidcConfig_discovered_wins_witness:
  "fetchOidcConfig (exampleEnv discoveryWithIssuer rejectAll) (exampleConfig ''issuer'')
     = Inr discoveryWithIssuer
   \<and> discoveryWithIssuer ''issuer'' = Some ''https://idp.example/oidc/''
   \<and> discoveryWithIssuer ''clientId'' = None
   \<and> fst (getOidcConfig (exampleEnv discoveryWithIssuer rejectAll) exampleConfig emptyWorld)
       = Inr (exampleConfig ++ discoveryWithIssuer)
   \<and> (exampleConfig ++ discoveryWithIssuer) ''issuer'' = Some ''https://idp.example/oidc/''
   \<and> (exampleConfig ++ discoveryWithIssuer) ''clientId'' = exampleConfig ''clientId''"
proof -
  have h: "fetchOidcConfig (exampleEnv discoveryWithIssuer rejectAll) (exampleConfig ''issuer'')
             = Inr discoveryWithIssuer"
    by (simp add: exampleEnv_def exampleConfig_def)
  have i: "discoveryWithIssuer ''issuer'' = Some ''https://idp.example/oidc/''"
    by (simp add: discoveryWithIssuer_def)
  have c: "discoveryWithIssuer ''clientId'' = None"
    by (simp add: discoveryWithIssuer_def)
  from getOidcConfig_discovered_wins
         [where env = "exampleEnv discoveryWithIssuer rejectAll" and config = exampleConfig
            and disc = discoveryWithIssuer and w = emptyWorld, OF h] i c
  show ?thesis
    using h by simp
qed

text \<open>
  C7, as the specification states it, fails: the issuer is specified by the static configuration and by
  the discovery document, it is not an endpoint, and the resolved configuration has the
  discovered value, not the static one.
\<close>

theorem getOidcConfig_static_wins_counterexample:
  "exampleConfig ''issuer'' = Some ''https://idp.example/oidc''
   \<and> discoveryWithIssuer ''issuer'' = Some ''https://idp.example/oidc/''
   \<and> fst (getOidcConfig (exampleEnv discoveryWithIssuer rejectAll) exampleConfig emptyWorld)
       = Inr (exampleConfig ++ discoveryWithIssuer)
   \<and> (exampleConfig ++ discoveryWithIssuer) ''issuer'' \<noteq> exampleConfig ''issuer''"
  by (simp add: getOidcConfig_def Let_def exampleEnv_def exampleConfig_def
      discoveryWithIssuer_def)

text \<open>
  C8.  For a discovery document with both endpoints, the authorization endpoint and the token
  endpoint of the resolved configuration are the discovered ones, whatever the static
  configuration holds under these names.
\<close>

theorem getOidcConfig_endpoints:
  assumes "fetchOidcConfig env (config ''issuer'') = Inr disc"
    and "disc ''authorizationEndpoint'' = Some a"
    and "disc ''tokenEndpoint'' = Some t"
  shows "fst (getOidcConfig env config w) = Inr (config ++ disc)
         \<and> (config ++ disc) ''authorizationEndpoint'' = Some a
         \<and> (config ++ disc) ''tokenEndpoint'' = Some t"
  using assms by (simp add: getOidcConfig_ok map_add_def)

theorem getOidcConfig_endpoints_witness:
  "fetchOidcConfig (exampleEnv exampleDiscovery rejectAll) (configWithEndpoints ''issuer'')
     = Inr exampleDiscovery
   \<and> exampleDiscovery ''authorizationEndpoint'' = Some ''https://idp.example/authorize''
   \<and> exampleDiscovery ''tokenEndpoint'' = Some ''https://idp.example/token''
   \<and> configWithEndpoints ''authorizationEndpoint'' = Some ''https://static.example/authorize''
   \<and> configWithEndpoints ''tokenEndpoint'' = Some ''https://static.example/token''
   \<and> fst (getOidcConfig (exampleEnv exampleDiscovery rejectAll) configWithEndpoints emptyWorld)
       = Inr (configWithEndpoints ++ exampleDiscovery)
   \<and> (configWithEndpoints ++ exampleDiscovery) ''authorizationEndpoint''
       = Some ''https://idp.example/authorize''
   \<and> (configWithEndpoints ++ exampleDiscovery) ''tokenEndpoint''
       = Some ''https://idp.example/token''"
proof -
  have h: "fetchOidcConfig (exampleEnv exampleDiscovery rejectAll) (configWithEndpoints ''issuer'')
             = Inr exampleDiscovery"
    by (simp add: exampleEnv_def configWithEndpoints_def)
  have a: "exampleDiscovery ''authorizationEndpoint'' = Some ''https://idp.example/authorize''"
    by (simp add: exampleDiscovery_def)
  have t: "exampleDiscovery ''tokenEndpoint'' = Some ''https://idp.example/token''"
    by (simp add: exampleDiscovery_def)
  have s: "configWithEndpoints ''authorizationEndpoint'' = Some ''https://static.example/authorize''
           \<and> configWithEndpoints ''tokenEndpoint'' = Some ''https://static.example/token''"
    by (simp add: configWithEndpoints_def)
  from getOidcConfig_endpoints
         [where env = "exampleEnv exampleDiscovery rejectAll" and config = configWithEndpoints
            and disc = exampleDiscovery and w = emptyWorld, OF h a t]
  show ?thesis
    using h a t s by simp
qed

subsection \<open>The query string and its reader\<close>

lemma hex_index_cases:
  "k < 16 \<Longrightarrow> k = 0 \<or> k = 1 \<or> k = 2 \<or> k = 3 \<or> k = 4 \<or> k = 5 \<or> k = 6 \<or> k = 7 \<or> k = 8
      \<or> k = 9 \<or> k = 10 \<or> k = 11 \<or> k = 12 \<or> k = 13 \<or> k = 14 \<or> k = (15::nat)"
  by arith

lemma hexValue_hexDigit: "k < 16 \<Longrightarrow> hexValue (hexDigit k) = Some k"
  by (drule hex_index_cases, elim disjE) (simp_all add: hexValue_def hexDigit_def)

lemma hexDigit_plain:
  "k < 16 \<Longrightarrow> hexDigit k \<noteq> CHR ''&'' \<and> hexDigit k \<noteq> CHR ''='' \<and> hexDigit k \<noteq> CHR ''+''"
  by (drule hex_index_cases, elim disjE) (simp_all add: hexDigit_def)

lemma isUrlSafe_reserved:
  "\<not> isUrlSafe (CHR ''&'')" "\<not> isUrlSafe (CHR ''='')" "\<not> isUrlSafe (CHR ''+'')"
  "\<not> isUrlSafe (CHR ''%'')"
  by (simp_all add: isUrlSafe_def)

lemma of_char_lt: "(of_char c :: nat) < 256"
  by (cases c) simp

lemma of_char_div: "(of_char c :: nat) div 16 < 16"
  using of_char_lt [of c] by presburger

lemma urlencodeByte_no_sep:
  assumes x: "x \<in> set (urlencodeByte c)"
  shows "x \<noteq> CHR ''&'' \<and> x \<noteq> CHR ''=''"
proof (cases "isUrlSafe c")
  case True
  with x have "x = c" by (simp add: urlencodeByte_def)
  with True isUrlSafe_reserved show ?thesis by blast
next
  case False
  show ?thesis
  proof (cases "c = CHR '' ''")
    case True
    with False x show ?thesis by (simp add: urlencodeByte_def)
  next
    case sp: False
    have m: "(of_char c :: nat) mod 16 < 16" by simp
    from False sp x have "x = CHR ''%'' \<or> x = hexDigit ((of_char c :: nat) div 16)
        \<or> x = hexDigit ((of_char c :: nat) mod 16)"
      by (simp add: urlencodeByte_def)
    then show ?thesis
      using hexDigit_plain [OF of_char_div [of c]] hexDigit_plain [OF m]
      by (elim disjE) simp_all
  qed
qed

lemma urlencode_no_sep: "CHR ''&'' \<notin> set (urlencode s)" "CHR ''='' \<notin> set (urlencode s)"
  using urlencodeByte_no_sep by (auto simp: urlencode_def)

lemma percentDecode_urlencodeByte:
  "percentDecode (plusToSpace (urlencodeByte c) @ rest) = c # percentDecode rest"
proof (cases "isUrlSafe c")
  case True
  with isUrlSafe_reserved have "c \<noteq> CHR ''+''" "c \<noteq> CHR ''%''" by blast+
  with True show ?thesis by (simp add: urlencodeByte_def plusToSpace_def)
next
  case False
  show ?thesis
  proof (cases "c = CHR '' ''")
    case True
    with False show ?thesis by (simp add: urlencodeByte_def plusToSpace_def)
  next
    case sp: False
    have d: "(of_char c :: nat) div 16 < 16" by (rule of_char_div)
    have m: "(of_char c :: nat) mod 16 < 16" by simp
    have p1: "hexDigit ((of_char c :: nat) div 16) \<noteq> CHR ''+''"
      using hexDigit_plain [OF d] by simp
    have p2: "hexDigit ((of_char c :: nat) mod 16) \<noteq> CHR ''+''"
      using hexDigit_plain [OF m] by simp
    have "char_of (16 * ((of_char c :: nat) div 16) + (of_char c :: nat) mod 16) = c"
      by simp
    with False sp p1 p2 show ?thesis
      by (simp add: urlencodeByte_def plusToSpace_def hexValue_hexDigit [OF d]
          hexValue_hexDigit [OF m])
  qed
qed

lemma urldecode_urlencode: "urldecode (urlencode s) = s"
proof -
  have "percentDecode (plusToSpace (urlencode s)) = s"
  proof (induction s)
    case Nil
    show ?case by (simp add: urlencode_def plusToSpace_def)
  next
    case (Cons c s)
    have "plusToSpace (urlencode (c # s))
        = plusToSpace (urlencodeByte c) @ plusToSpace (urlencode s)"
      by (simp add: urlencode_def plusToSpace_def)
    with Cons percentDecode_urlencodeByte show ?case by simp
  qed
  then show ?thesis by (simp add: urldecode_def)
qed

lemma splitOn_no_sep: "d \<notin> set a \<Longrightarrow> splitOn d a = [a]"
  by (induction a) (auto split: list.splits)

lemma splitOn_append: "d \<notin> set a \<Longrightarrow> splitOn d (a @ d # b) = a # splitOn d b"
  by (induction a) (auto split: list.splits)

lemma encodePair_no_amp: "CHR ''&'' \<notin> set (encodePair p)"
  using urlencode_no_sep by (simp add: encodePair_def)

lemma encodePair_nonempty: "encodePair p \<noteq> []"
  by (simp add: encodePair_def)

lemma parsePair_encodePair: "parsePair (encodePair p) = p"
proof -
  have t: "takeWhile (\<lambda>c. c \<noteq> CHR ''='') (urlencode (fst p) @ CHR ''='' # urlencode (snd p))
        = urlencode (fst p)"
    using urlencode_no_sep(2) [of "fst p"] by (simp add: takeWhile_append)
  have d: "dropWhile (\<lambda>c. c \<noteq> CHR ''='') (urlencode (fst p) @ CHR ''='' # urlencode (snd p))
        = CHR ''='' # urlencode (snd p)"
    using urlencode_no_sep(2) [of "fst p"] by (simp add: dropWhile_append)
  show ?thesis
    by (simp add: parsePair_def encodePair_def t d urldecode_urlencode)
qed

lemma parse_joinAmp:
  "map parsePair (filter (\<lambda>q. q \<noteq> []) (splitOn (CHR ''&'') (joinAmp (map encodePair ps)))) = ps"
proof (induction ps rule: induct_list012)
  case 1
  show ?case by simp
next
  case (2 p)
  show ?case
    by (simp add: splitOn_no_sep [OF encodePair_no_amp] encodePair_nonempty parsePair_encodePair)
next
  case (3 p q ps)
  have "joinAmp (map encodePair (p # q # ps))
      = encodePair p @ CHR ''&'' # joinAmp (map encodePair (q # ps))"
    by simp
  then have "splitOn (CHR ''&'') (joinAmp (map encodePair (p # q # ps)))
      = encodePair p # splitOn (CHR ''&'') (joinAmp (map encodePair (q # ps)))"
    by (simp only: splitOn_append [OF encodePair_no_amp])
  with 3 show ?case
    by (simp add: encodePair_nonempty parsePair_encodePair)
qed

lemma URLSearchParams_roundtrip: "URLSearchParams_parse (URLSearchParams_toString ps) = ps"
  by (simp add: URLSearchParams_parse_def URLSearchParams_toString_def parse_joinAmp)

subsection \<open>The authorization request\<close>

lemma snakeCase_keys:
  "snakeCase ''clientId'' = ''client_id''"
  "snakeCase ''responseType'' = ''response_type''"
  "snakeCase ''redirectUri'' = ''redirect_uri''"
  by (simp_all add: isUpper_def toLower_def char_of_eq_iff)

lemma queryParameters_eq:
  "queryParameters oidcConfig st n r =
     [(''state'', st), (''nonce'', n), (''client_id'', jsToString (oidcConfig ''clientId'')),
      (''response_type'', ''code''), (''redirect_uri'', r),
      (''scope'', jsToString (oidcConfig ''scope''))]"
  by (simp add: queryParameters_def snakecaseKeys_def snakeCase_keys del: snakeCase.simps)

lemma urlencode_keys:
  "urlencode ''state'' = ''state''" "urlencode ''nonce'' = ''nonce''"
  "urlencode ''client_id'' = ''client_id''" "urlencode ''response_type'' = ''response_type''"
  "urlencode ''redirect_uri'' = ''redirect_uri''" "urlencode ''scope'' = ''scope''"
  "urlencode ''code'' = ''code''"
  by (simp_all add: urlencode_def urlencodeByte_def isUrlSafe_def)

lemma toString_queryParameters:
  "URLSearchParams_toString (queryParameters oidcConfig st n r) =
     ''state='' @ urlencode st @ ''&nonce='' @ urlencode n
     @ ''&client_id='' @ urlencode (jsToString (oidcConfig ''clientId''))
     @ ''&response_type=code&redirect_uri='' @ urlencode r
     @ ''&scope='' @ urlencode (jsToString (oidcConfig ''scope''))"
  by (simp add: queryParameters_eq URLSearchParams_toString_def encodePair_def urlencode_keys)

text \<open>The serialised parameters have no \<^verbatim>\<open>#\<close>, so appended to an endpoint that has
  neither \<^verbatim>\<open>?\<close> nor \<^verbatim>\<open>#\<close> they are the query of the URL.\<close>

lemma hexDigit_no_hash: "k < 16 \<Longrightarrow> hexDigit k \<noteq> CHR ''#''"
  by (drule hex_index_cases, elim disjE) (simp_all add: hexDigit_def)

lemma urlencodeByte_no_hash: "CHR ''#'' \<notin> set (urlencodeByte c)"
proof (cases "isUrlSafe c")
  case True
  have "\<not> isUrlSafe (CHR ''#'')" by (simp add: isUrlSafe_def)
  with True have "c \<noteq> CHR ''#''" by blast
  with True show ?thesis by (simp add: urlencodeByte_def)
next
  case False
  have m: "(of_char c :: nat) mod 16 < 16" by simp
  from False hexDigit_no_hash [OF of_char_div [of c]] hexDigit_no_hash [OF m]
  show ?thesis by (auto simp: urlencodeByte_def)
qed

lemma urlencode_no_hash: "CHR ''#'' \<notin> set (urlencode s)"
  using urlencodeByte_no_hash by (auto simp: urlencode_def)

lemma encodePair_no_hash: "CHR ''#'' \<notin> set (encodePair p)"
  using urlencode_no_hash by (simp add: encodePair_def)

lemma joinAmp_no_hash: "(\<And>p. p \<in> set ps \<Longrightarrow> CHR ''#'' \<notin> set p) \<Longrightarrow> CHR ''#'' \<notin> set (joinAmp ps)"
  by (induction ps rule: joinAmp.induct) auto

lemma toString_no_hash: "CHR ''#'' \<notin> set (URLSearchParams_toString ps)"
  unfolding URLSearchParams_toString_def
  by (rule joinAmp_no_hash) (auto simp: encodePair_no_hash)

lemma url_parts:
  assumes "CHR ''?'' \<notin> set a" and "CHR ''#'' \<notin> set a" and "CHR ''#'' \<notin> set q"
  shows "urlBeforeQuery (a @ CHR ''?'' # q) = a" and "urlQuery (a @ CHR ''?'' # q) = q"
proof -
  from assms(2,3) have s: "stripFragment (a @ CHR ''?'' # q) = a @ CHR ''?'' # q"
    by (auto simp: stripFragment_def)
  from assms(1) show "urlBeforeQuery (a @ CHR ''?'' # q) = a"
    by (simp add: urlBeforeQuery_def s takeWhile_append)
  from assms(1) show "urlQuery (a @ CHR ''?'' # q) = q"
    by (simp add: urlQuery_def s dropWhile_append)
qed

lemma searchParams_appended:
  assumes "CHR ''?'' \<notin> set a" and "CHR ''#'' \<notin> set a"
  shows "searchParams (a @ ''?'' @ URLSearchParams_toString ps) = ps"
  by (simp add: searchParams_def url_parts(2) [OF assms toString_no_hash]
      URLSearchParams_roundtrip)

lemma getAuthorizationUrl_resolved:
  assumes "fetchOidcConfig env (config ''issuer'') = Inr disc"
  shows "getAuthorizationUrl env config st r c (Some store) w =
     (case store \<lparr>nonce = idSource env (idCount w), redirectUri = r, connectorId = c,
                   state = st\<rparr>
             \<lparr>effects = effects w @ [FetchOidcConfig (config ''issuer'')],
              idCount = Suc (idCount w)\<rparr> of
        (Inl e, w3) \<Rightarrow> (Inl e, w3)
      | (Inr u, w3) \<Rightarrow>
          (Inr (jsToString ((config ++ disc) ''authorizationEndpoint'') @ ''?''
                @ URLSearchParams_toString
                    (queryParameters (config ++ disc) st (idSource env (idCount w)) r)),
           w3))"
  using assms
  by (cases w)
    (simp add: getAuthorizationUrl_def getOidcConfig_ok generateStandardId_def logEffect_def
       split: prod.splits sum.splits)

lemma getAuthorizationUrl_success:
  assumes "getAuthorizationUrl env config st r c (Some store) w = (Inr url, w')"
  shows "\<exists>disc. fetchOidcConfig env (config ''issuer'') = Inr disc
     \<and> store \<lparr>nonce = idSource env (idCount w), redirectUri = r, connectorId = c, state = st\<rparr>
           \<lparr>effects = effects w @ [FetchOidcConfig (config ''issuer'')],
            idCount = Suc (idCount w)\<rparr> = (Inr (), w')
     \<and> url = jsToString ((config ++ disc) ''authorizationEndpoint'') @ ''?''
             @ URLSearchParams_toString
                 (queryParameters (config ++ disc) st (idSource env (idCount w)) r)"
proof (cases "fetchOidcConfig env (config ''issuer'')")
  case (Inl e)
  with assms show ?thesis
    by (simp add: getAuthorizationUrl_def getOidcConfig_error)
next
  case (Inr disc)
  from assms show ?thesis
    unfolding getAuthorizationUrl_resolved [where env = env and config = config, OF Inr]
    using Inr by (auto split: prod.splits sum.splits)
qed

lemma example_fetch:
  "fetchOidcConfig (exampleEnv disc validate) (exampleConfig ''issuer'') = Inr disc"
  by (simp add: exampleEnv_def exampleConfig_def)

lemma example_authorization:
  "getAuthorizationUrl (exampleEnv exampleDiscovery validate) exampleConfig ''st1''
     ''https://app.example/cb'' ''conn1'' (Some rememberSession) emptyWorld =
   (Inr ''https://idp.example/authorize?state=st1&nonce=n&client_id=c1&response_type=code&redirect_uri=https%3A%2F%2Fapp.example%2Fcb&scope=openid+profile+email'',
    \<lparr>effects =
       [FetchOidcConfig (Some ''https://idp.example/oidc''),
        SetSession \<lparr>nonce = ''n'', redirectUri = ''https://app.example/cb'',
                    connectorId = ''conn1'', state = ''st1''\<rparr>],
     idCount = 1\<rparr>)"
  by (simp add: getAuthorizationUrl_def getOidcConfig_def generateStandardId_def logEffect_def
      Let_def exampleEnv_def exampleConfig_def exampleDiscovery_def emptyWorld_def
      rememberSession_def jsToString_def toString_queryParameters
      urlencode_def urlencodeByte_def isUrlSafe_def hexDigit_def)

text \<open>
  C5, as the code has it.  For a discovered authorization endpoint that has no query and no
  fragment of its own, the URL of a successful call is rooted at that endpoint and its query
  string contains exactly the parameters \<open>state\<close>, \<open>nonce\<close>, \<open>client_id\<close>,
  \<open>response_type\<close> (with value \<open>code\<close>), \<open>redirect_uri\<close> and \<open>scope\<close>, each
  value written in the form-urlencoded format.  In the scenario of the specification the
  redirect URI is written \<^verbatim>\<open>https%3A%2F%2Fapp.example%2Fcb\<close> and the scope
  \<^verbatim>\<open>openid+profile+email\<close>.
\<close>

theorem getAuthorizationUrl_url:
  assumes "fst (getAuthorizationUrl env config st r c (Some store) w) = Inr url"
    and "fetchOidcConfig env (config ''issuer'') = Inr disc"
    and "disc ''authorizationEndpoint'' = Some a"
    and "CHR ''?'' \<notin> set a" and "CHR ''#'' \<notin> set a"
  shows "url = a @ ''?''
               @ URLSearchParams_toString
                   (queryParameters (config ++ disc) st (idSource env (idCount w)) r)
       \<and> urlBeforeQuery url = a
       \<and> urlQuery url
         = ''state='' @ urlencode st @ ''&nonce='' @ urlencode (idSource env (idCount w))
           @ ''&client_id='' @ urlencode (jsToString ((config ++ disc) ''clientId''))
           @ ''&response_type=code&redirect_uri='' @ urlencode r
           @ ''&scope='' @ urlencode (jsToString ((config ++ disc) ''scope''))
       \<and> searchParams url
         = [(''state'', st), (''nonce'', idSource env (idCount w)),
            (''client_id'', jsToString ((config ++ disc) ''clientId'')),
            (''response_type'', ''code''), (''redirect_uri'', r),
            (''scope'', jsToString ((config ++ disc) ''scope''))]"
proof -
  let ?q = "queryParameters (config ++ disc) st (idSource env (idCount w)) r"
  from assms(1) have "getAuthorizationUrl env config st r c (Some store) w
      = (Inr url, snd (getAuthorizationUrl env config st r c (Some store) w))"
    by (metis prod.collapse)
  from getAuthorizationUrl_success [OF this] assms(2)
  have "url = jsToString ((config ++ disc) ''authorizationEndpoint'') @ ''?''
             @ URLSearchParams_toString ?q"
    by auto
  moreover from assms(3) have "jsToString ((config ++ disc) ''authorizationEndpoint'') = a"
    by (simp add: jsToString_def)
  ultimately have u: "url = a @ ''?'' @ URLSearchParams_toString ?q"
    by (simp only:)
  have b: "urlBeforeQuery url = a"
    unfolding u using url_parts(1) [OF assms(4,5) toString_no_hash] by simp
  have "urlQuery url = URLSearchParams_toString ?q"
    unfolding u using url_parts(2) [OF assms(4,5) toString_no_hash] by simp
  then have t: "urlQuery url
         = ''state='' @ urlencode st @ ''&nonce='' @ urlencode (idSource env (idCount w))
           @ ''&client_id='' @ urlencode (jsToString ((config ++ disc) ''clientId''))
           @ ''&response_type=code&redirect_uri='' @ urlencode r
           @ ''&scope='' @ urlencode (jsToString ((config ++ disc) ''scope''))"
    by (simp only: toString_queryParameters)
  have "searchParams url = ?q"
    unfolding u by (rule searchParams_appended [OF assms(4,5)])
  then have p: "searchParams url
         = [(''state'', st), (''nonce'', idSource env (idCount w)),
            (''client_id'', jsToString ((config ++ disc) ''clientId'')),
            (''response_type'', ''code''), (''redirect_uri'', r),
            (''scope'', jsToString ((config ++ disc) ''scope''))]"
    by (simp only: queryParameters_eq)
  from u b t p show ?thesis by blast
qed

theorem getAuthorizationUrl_url_witness:
  "fst (getAuthorizationUrl (exampleEnv exampleDiscovery rejectAll) exampleConfig ''st1''
          ''https://app.example/cb'' ''conn1'' (Some rememberSession) emptyWorld)
     = Inr ''https://idp.example/authorize?state=st1&nonce=n&client_id=c1&response_type=code&redirect_uri=https%3A%2F%2Fapp.example%2Fcb&scope=openid+profile+email''
   \<and> fetchOidcConfig (exampleEnv exampleDiscovery rejectAll) (exampleConfig ''issuer'')
       = Inr exampleDiscovery
   \<and> exampleDiscovery ''authorizationEndpoint'' = Some ''https://idp.example/authorize''
   \<and> CHR ''?'' \<notin> set ''https://idp.example/authorize''
   \<and> CHR ''#'' \<notin> set ''https://idp.example/authorize''
   \<and> urlBeforeQuery ''https://idp.example/authorize?state=st1&nonce=n&client_id=c1&response_type=code&redirect_uri=https%3A%2F%2Fapp.example%2Fcb&scope=openid+profile+email''
       = ''https://idp.example/authorize''
   \<and> urlQuery ''https://idp.example/authorize?state=st1&nonce=n&client_id=c1&response_type=code&redirect_uri=https%3A%2F%2Fapp.example%2Fcb&scope=openid+profile+email''
       = ''state=st1&nonce=n&client_id=c1&response_type=code&redirect_uri=https%3A%2F%2Fapp.example%2Fcb&scope=openid+profile+email''
   \<and> searchParams ''https://idp.example/authorize?state=st1&nonce=n&client_id=c1&response_type=code&redirect_uri=https%3A%2F%2Fapp.example%2Fcb&scope=openid+profile+email''
       = [(''state'', ''st1''), (''nonce'', ''n''), (''client_id'', ''c1''),
          (''response_type'', ''code''), (''redirect_uri'', ''https://app.example/cb''),
          (''scope'', ''openid profile email'')]"
proof -
  have call: "fst (getAuthorizationUrl (exampleEnv exampleDiscovery rejectAll) exampleConfig
                     ''st1'' ''https://app.example/cb'' ''conn1'' (Some rememberSession) emptyWorld)
     = Inr ''https://idp.example/authorize?state=st1&nonce=n&client_id=c1&response_type=code&redirect_uri=https%3A%2F%2Fapp.example%2Fcb&scope=openid+profile+email''"
    by (simp add: example_authorization [of rejectAll])
  have fetch: "fetchOidcConfig (exampleEnv exampleDiscovery rejectAll) (exampleConfig ''issuer'')
       = Inr exampleDiscovery"
    by (rule example_fetch)
  have endpoint: "exampleDiscovery ''authorizationEndpoint'' = Some ''https://idp.example/authorize''"
    by (simp add: exampleDiscovery_def)
  have plain: "CHR ''?'' \<notin> set ''https://idp.example/authorize''"
    "CHR ''#'' \<notin> set ''https://idp.example/authorize''"
    by simp_all
  have n: "idSource (exampleEnv exampleDiscovery rejectAll) (idCount emptyWorld) = ''n''"
    by (simp add: exampleEnv_def emptyWorld_def)
  have c: "jsToString ((exampleConfig ++ exampleDiscovery) ''clientId'') = ''c1''"
    by (simp add: exampleConfig_def exampleDiscovery_def jsToString_def)
  have s: "jsToString ((exampleConfig ++ exampleDiscovery) ''scope'') = ''openid profile email''"
    by (simp add: exampleConfig_def exampleDiscovery_def jsToString_def)
  have e: "urlencode ''st1'' = ''st1''" "urlencode ''n'' = ''n''" "urlencode ''c1'' = ''c1''"
    "urlencode ''https://app.example/cb'' = ''https%3A%2F%2Fapp.example%2Fcb''"
    "urlencode ''openid profile email'' = ''openid+profile+email''"
    by (simp_all add: urlencode_def urlencodeByte_def isUrlSafe_def hexDigit_def)
  note url = getAuthorizationUrl_url
         [where env = "exampleEnv exampleDiscovery rejectAll" and config = exampleConfig
            and disc = exampleDiscovery and w = emptyWorld, OF call fetch endpoint plain]
  have b: "urlBeforeQuery ''https://idp.example/authorize?state=st1&nonce=n&client_id=c1&response_type=code&redirect_uri=https%3A%2F%2Fapp.example%2Fcb&scope=openid+profile+email''
       = ''https://idp.example/authorize''"
    by (rule url [THEN conjunct2, THEN conjunct1])
  have q: "urlQuery ''https://idp.example/authorize?state=st1&nonce=n&client_id=c1&response_type=code&redirect_uri=https%3A%2F%2Fapp.example%2Fcb&scope=openid+profile+email''
       = ''state=st1&nonce=n&client_id=c1&response_type=code&redirect_uri=https%3A%2F%2Fapp.example%2Fcb&scope=openid+profile+email''"
    by (simp only: url [THEN conjunct2, THEN conjunct2, THEN conjunct1]) (simp add: n c s e)
  have p: "searchParams ''https://idp.example/authorize?state=st1&nonce=n&client_id=c1&response_type=code&redirect_uri=https%3A%2F%2Fapp.example%2Fcb&scope=openid+profile+email''
       = [(''state'', ''st1''), (''nonce'', ''n''), (''client_id'', ''c1''),
          (''response_type'', ''code''), (''redirect_uri'', ''https://app.example/cb''),
          (''scope'', ''openid profile email'')]"
    by (simp only: url [THEN conjunct2, THEN conjunct2, THEN conjunct2] n c s)
  from call fetch endpoint plain b q p show ?thesis by blast
qed

text \<open>
  C5, as the specification states it, fails in its own scenario: the URL returned has
  neither the text \<^verbatim>\<open>scope=openid%20profile%20email\<close> nor the text
  \<^verbatim>\<open>redirect_uri=https://app.example/cb\<close> in it.
\<close>

theorem getAuthorizationUrl_percent20_counterexample:
  "fst (getAuthorizationUrl (exampleEnv exampleDiscovery rejectAll) exampleConfig ''st1''
          ''https://app.example/cb'' ''conn1'' (Some rememberSession) emptyWorld)
     = Inr ''https://idp.example/authorize?state=st1&nonce=n&client_id=c1&response_type=code&redirect_uri=https%3A%2F%2Fapp.example%2Fcb&scope=openid+profile+email''
   \<and> \<not> sublist ''scope=openid%20profile%20email''
         ''https://idp.example/authorize?state=st1&nonce=n&client_id=c1&response_type=code&redirect_uri=https%3A%2F%2Fapp.example%2Fcb&scope=openid+profile+email''
   \<and> \<not> sublist ''redirect_uri=https://app.example/cb''
         ''https://idp.example/authorize?state=st1&nonce=n&client_id=c1&response_type=code&redirect_uri=https%3A%2F%2Fapp.example%2Fcb&scope=openid+profile+email''"
proof (intro conjI)
  show "fst (getAuthorizationUrl (exampleEnv exampleDiscovery rejectAll) exampleConfig ''st1''
          ''https://app.example/cb'' ''conn1'' (Some rememberSession) emptyWorld)
     = Inr ''https://idp.example/authorize?state=st1&nonce=n&client_id=c1&response_type=code&redirect_uri=https%3A%2F%2Fapp.example%2Fcb&scope=openid+profile+email''"
    by (simp add: example_authorization [of rejectAll])
  show "\<not> sublist ''scope=openid%20profile%20email''
         ''https://idp.example/authorize?state=st1&nonce=n&client_id=c1&response_type=code&redirect_uri=https%3A%2F%2Fapp.example%2Fcb&scope=openid+profile+email''"
    by code_simp
  show "\<not> sublist ''redirect_uri=https://app.example/cb''
         ''https://idp.example/authorize?state=st1&nonce=n&client_id=c1&response_type=code&redirect_uri=https%3A%2F%2Fapp.example%2Fcb&scope=openid+profile+email''"
    by code_simp
qed

text \<open>
  An authorization endpoint may have a query of its own.  The URL is then the endpoint, a
  second question mark and the parameters: a receiver reads the first parameter of the
  connector as the tail of the value of the endpoint's last one, and finds no \<open>state\<close>.
\<close>

lemma example_endpoint_with_query:
  "fst (getAuthorizationUrl (exampleEnv discoveryWithQuery validate) exampleConfig ''st1''
          ''https://app.example/cb'' ''conn1'' (Some rememberSession) emptyWorld)
     = Inr ''https://idp.example/authorize?tenant=t1?state=st1&nonce=n&client_id=c1&response_type=code&redirect_uri=https%3A%2F%2Fapp.example%2Fcb&scope=openid+profile+email''"
  "searchParams ''https://idp.example/authorize?tenant=t1?state=st1&nonce=n&client_id=c1&response_type=code&redirect_uri=https%3A%2F%2Fapp.example%2Fcb&scope=openid+profile+email''
     = [(''tenant'', ''t1?state=st1''), (''nonce'', ''n''), (''client_id'', ''c1''),
        (''response_type'', ''code''), (''redirect_uri'', ''https://app.example/cb''),
        (''scope'', ''openid profile email'')]"
proof -
  show "fst (getAuthorizationUrl (exampleEnv discoveryWithQuery validate) exampleConfig ''st1''
          ''https://app.example/cb'' ''conn1'' (Some rememberSession) emptyWorld)
     = Inr ''https://idp.example/authorize?tenant=t1?state=st1&nonce=n&client_id=c1&response_type=code&redirect_uri=https%3A%2F%2Fapp.example%2Fcb&scope=openid+profile+email''"
    by (simp add: getAuthorizationUrl_def getOidcConfig_def generateStandardId_def logEffect_def
      Let_def exampleEnv_def exampleConfig_def discoveryWithQuery_def emptyWorld_def
      rememberSession_def jsToString_def toString_queryParameters
      urlencode_def urlencodeByte_def isUrlSafe_def hexDigit_def)
  have "urlQuery ''https://idp.example/authorize?tenant=t1?state=st1&nonce=n&client_id=c1&response_type=code&redirect_uri=https%3A%2F%2Fapp.example%2Fcb&scope=openid+profile+email''
      = ''tenant=t1?state=st1&nonce=n&client_id=c1&response_type=code&redirect_uri=https%3A%2F%2Fapp.example%2Fcb&scope=openid+profile+email''"
    by (simp add: urlQuery_def stripFragment_def)
  then show "searchParams ''https://idp.example/authorize?tenant=t1?state=st1&nonce=n&client_id=c1&response_type=code&redirect_uri=https%3A%2F%2Fapp.example%2Fcb&scope=openid+profile+email''
     = [(''tenant'', ''t1?state=st1''), (''nonce'', ''n''), (''client_id'', ''c1''),
        (''response_type'', ''code''), (''redirect_uri'', ''https://app.example/cb''),
        (''scope'', ''openid profile email'')]"
    by (simp add: searchParams_def URLSearchParams_parse_def parsePair_def urldecode_def
        plusToSpace_def hexValue_def char_of_eq_iff)
qed



subsection \<open>The callback\<close>

lemma getUserInfo_ok:
  assumes "fetchOidcConfig env (config ''issuer'') = Inr disc"
  shows "getUserInfo env config s d w =
     (let w2 = logEffect (FetchToken (config ++ disc) d (redirectUri s))
                 (logEffect (FetchOidcConfig (config ''issuer'')) w)
      in case fetchToken env (config ++ disc) d (redirectUri s) of
           Inl e \<Rightarrow> (Inl e, w2)
         | Inr response \<Rightarrow>
             (let w3 = logEffect
                         (GetIdTokenClaims (idToken response) (config ++ disc) (nonce s)) w2
              in case getIdTokenClaims env (idToken response) (config ++ disc) (nonce s) of
                   Inl e \<Rightarrow> (Inl e, w3)
                 | Inr claims \<Rightarrow> (Inr (userInfo claims), w3)))"
  using assms by (simp add: getUserInfo_def getOidcConfig_ok)

lemma getUserInfo_claims:
  assumes "fetchOidcConfig env (config ''issuer'') = Inr disc"
    and "fetchToken env (config ++ disc) d (redirectUri s) = Inr response"
    and "getIdTokenClaims env (idToken response) (config ++ disc) (nonce s) = Inr claims"
  shows "fst (getUserInfo env config s d w) = Inr (userInfo claims)"
  using assms by (simp add: getUserInfo_ok Let_def)

lemma getUserInfo_rejected:
  assumes "fetchOidcConfig env (config ''issuer'') = Inr disc"
    and "fetchToken env (config ++ disc) d (redirectUri s) = Inr response"
    and "getIdTokenClaims env (idToken response) (config ++ disc) (nonce s) = Inl e"
  shows "fst (getUserInfo env config s d w) = Inl e"
  using assms by (simp add: getUserInfo_ok Let_def)

lemma userInfo_fields:
  "userInfo c ''id'' = Some (sub c)"
  "userInfo c ''name'' = (if truthyString (name c) then name c else None)"
  "userInfo c ''avatar'' = (if truthyString (picture c) then picture c else None)"
  "userInfo c ''email'' =
     (if truthyString (email c) \<and> truthyBool (email_verified c) then email c else None)"
  "userInfo c ''phone'' =
     (if truthyString (phone c) \<and> truthyBool (phone_verified c) then phone c else None)"
  by (auto simp: userInfo_def spread_def conditional_def map_add_def truthyString_def
      jsToString_def split: option.splits)

lemma userInfo_dom: "dom (userInfo c) \<subseteq> {''id'', ''name'', ''avatar'', ''email'', ''phone''}"
  by (auto simp: userInfo_def spread_def conditional_def split: if_splits)

lemma truthyString_iff: "truthyString v \<longleftrightarrow> v \<noteq> None \<and> v \<noteq> Some []"
  by (cases v) (simp_all add: truthyString_def)

lemma truthyBool_iff: "truthyBool v \<longleftrightarrow> v = Some True"
  by (cases v) (simp_all add: truthyBool_def)

lemma example_token:
  "fetchToken (exampleEnv disc validate) c d r = Inr \<lparr>idToken = d\<rparr>"
  by (simp add: exampleEnv_def)

lemma example_accept:
  "getIdTokenClaims (exampleEnv disc (acceptAs claims)) t c n = Inr claims"
  by (simp add: exampleEnv_def acceptAs_def)

text \<open>
  C2, as the code has it.  When the token is validated to a claim set, the UserInfo returned
  has an \<open>email\<close> field if and only if the email claim is present, is not the empty
  string, and the \<open>email_verified\<close> claim is true, and the field then is the claim;
  likewise for \<open>phone\<close> and \<open>phone_verified\<close>.  An unverified email address or
  phone number is never in the output.
\<close>

theorem getUserInfo_verified_contacts:
  assumes "fetchOidcConfig env (config ''issuer'') = Inr disc"
    and "fetchToken env (config ++ disc) d (redirectUri s) = Inr response"
    and "getIdTokenClaims env (idToken response) (config ++ disc) (nonce s) = Inr claims"
  shows "fst (getUserInfo env config s d w) = Inr (userInfo claims)
       \<and> (''email'' \<in> dom (userInfo claims) \<longleftrightarrow>
            email claims \<noteq> None \<and> email claims \<noteq> Some [] \<and> email_verified claims = Some True)
       \<and> (''email'' \<in> dom (userInfo claims) \<longrightarrow> userInfo claims ''email'' = email claims)
       \<and> (''phone'' \<in> dom (userInfo claims) \<longleftrightarrow>
            phone claims \<noteq> None \<and> phone claims \<noteq> Some [] \<and> phone_verified claims = Some True)
       \<and> (''phone'' \<in> dom (userInfo claims) \<longrightarrow> userInfo claims ''phone'' = phone claims)"
  using getUserInfo_claims [where env = env and config = config, OF assms]
  by (auto simp: userInfo_fields truthyString_iff truthyBool_iff dom_def)

theorem getUserInfo_verified_contacts_witness:
  "fetchOidcConfig (exampleEnv exampleDiscovery (acceptAs goodClaims)) (exampleConfig ''issuer'')
     = Inr exampleDiscovery
   \<and> fetchToken (exampleEnv exampleDiscovery (acceptAs goodClaims))
         (exampleConfig ++ exampleDiscovery) ''code'' (redirectUri exampleSession)
       = Inr \<lparr>idToken = ''code''\<rparr>
   \<and> getIdTokenClaims (exampleEnv exampleDiscovery (acceptAs goodClaims))
         (idToken \<lparr>idToken = ''code''\<rparr>) (exampleConfig ++ exampleDiscovery)
         (nonce exampleSession)
       = Inr goodClaims
   \<and> email goodClaims = Some ''a@b.com'' \<and> email_verified goodClaims = Some True
   \<and> phone goodClaims = Some ''100200'' \<and> phone_verified goodClaims = Some False
   \<and> fst (getUserInfo (exampleEnv exampleDiscovery (acceptAs goodClaims)) exampleConfig
            exampleSession ''code'' emptyWorld) = Inr (userInfo goodClaims)
   \<and> userInfo goodClaims ''email'' = Some ''a@b.com''
   \<and> ''phone'' \<notin> dom (userInfo goodClaims)"
proof -
  note fetch = example_fetch [of exampleDiscovery "acceptAs goodClaims"]
  note token = example_token [of exampleDiscovery "acceptAs goodClaims"
      "exampleConfig ++ exampleDiscovery" "''code''" "redirectUri exampleSession"]
  note claims = example_accept [of exampleDiscovery goodClaims "idToken \<lparr>idToken = ''code''\<rparr>"
      "exampleConfig ++ exampleDiscovery" "nonce exampleSession"]
  have g: "email goodClaims = Some ''a@b.com''" "email_verified goodClaims = Some True"
    "phone goodClaims = Some ''100200''" "phone_verified goodClaims = Some False"
    by (simp_all add: goodClaims_def)
  note contacts = getUserInfo_verified_contacts
      [where env = "exampleEnv exampleDiscovery (acceptAs goodClaims)" and config = exampleConfig
         and w = emptyWorld, OF fetch token claims]
  from contacts g have "fst (getUserInfo (exampleEnv exampleDiscovery (acceptAs goodClaims))
            exampleConfig exampleSession ''code'' emptyWorld) = Inr (userInfo goodClaims)
     \<and> userInfo goodClaims ''email'' = Some ''a@b.com''
     \<and> ''phone'' \<notin> dom (userInfo goodClaims)"
    by simp
  with fetch token claims g show ?thesis by blast
qed

text \<open>
  C2, as the specification states it, fails: an email claim that is present as the empty string, with
  \<open>email_verified\<close> true, gives a UserInfo without an \<open>email\<close> field; likewise for
  the phone number.
\<close>

theorem getUserInfo_empty_email_counterexample:
  "email blankClaims = Some [] \<and> email_verified blankClaims = Some True
   \<and> phone blankClaims = Some [] \<and> phone_verified blankClaims = Some True
   \<and> fst (getUserInfo (exampleEnv exampleDiscovery (acceptAs blankClaims)) exampleConfig
            exampleSession ''code'' emptyWorld) = Inr (userInfo blankClaims)
   \<and> userInfo blankClaims ''email'' = None
   \<and> userInfo blankClaims ''phone'' = None"
proof -
  have "fst (getUserInfo (exampleEnv exampleDiscovery (acceptAs blankClaims)) exampleConfig
            exampleSession ''code'' emptyWorld) = Inr (userInfo blankClaims)"
    by (simp add: getUserInfo_def getOidcConfig_def Let_def exampleEnv_def exampleConfig_def
        acceptAs_def)
  moreover have "userInfo blankClaims ''email'' = None" "userInfo blankClaims ''phone'' = None"
    by (simp_all add: userInfo_def blankClaims_def truthyString_def spread_def conditional_def)
  moreover have "email blankClaims = Some []" "email_verified blankClaims = Some True"
    "phone blankClaims = Some []" "phone_verified blankClaims = Some True"
    by (simp_all add: blankClaims_def)
  ultimately show ?thesis by blast
qed

text \<open>
  C9.  An optional field of the UserInfo needs a non-empty value: when the email claim is
  the empty string there is no \<open>email\<close> field (whatever \<open>email_verified\<close> says),
  likewise for \<open>phone\<close>, and an empty \<open>name\<close> or \<open>picture\<close> claim gives no
  \<open>name\<close> or \<open>avatar\<close> field; no optional field is ever the empty string.
\<close>

theorem getUserInfo_empty_values:
  assumes "fetchOidcConfig env (config ''issuer'') = Inr disc"
    and "fetchToken env (config ++ disc) d (redirectUri s) = Inr response"
    and "getIdTokenClaims env (idToken response) (config ++ disc) (nonce s) = Inr claims"
  shows "fst (getUserInfo env config s d w) = Inr (userInfo claims)
       \<and> (email claims = Some [] \<longrightarrow> ''email'' \<notin> dom (userInfo claims))
       \<and> (phone claims = Some [] \<longrightarrow> ''phone'' \<notin> dom (userInfo claims))
       \<and> (name claims = Some [] \<longrightarrow> ''name'' \<notin> dom (userInfo claims))
       \<and> (picture claims = Some [] \<longrightarrow> ''avatar'' \<notin> dom (userInfo claims))
       \<and> (\<forall>k \<in> {''name'', ''avatar'', ''email'', ''phone''}. userInfo claims k \<noteq> Some [])"
  using getUserInfo_claims [where env = env and config = config, OF assms]
  by (auto simp: userInfo_fields truthyString_iff truthyBool_iff dom_def)

theorem getUserInfo_empty_values_witness:
  "fetchOidcConfig (exampleEnv exampleDiscovery (acceptAs blankClaims)) (exampleConfig ''issuer'')
     = Inr exampleDiscovery
   \<and> fetchToken (exampleEnv exampleDiscovery (acceptAs blankClaims))
         (exampleConfig ++ exampleDiscovery) ''code'' (redirectUri exampleSession)
       = Inr \<lparr>idToken = ''code''\<rparr>
   \<and> getIdTokenClaims (exampleEnv exampleDiscovery (acceptAs blankClaims))
         (idToken \<lparr>idToken = ''code''\<rparr>) (exampleConfig ++ exampleDiscovery)
         (nonce exampleSession)
       = Inr blankClaims
   \<and> email blankClaims = Some [] \<and> phone blankClaims = Some []
   \<and> name blankClaims = Some [] \<and> picture blankClaims = Some []
   \<and> fst (getUserInfo (exampleEnv exampleDiscovery (acceptAs blankClaims)) exampleConfig
            exampleSession ''code'' emptyWorld) = Inr (userInfo blankClaims)
   \<and> ''email'' \<notin> dom (userInfo blankClaims) \<and> ''phone'' \<notin> dom (userInfo blankClaims)
   \<and> ''name'' \<notin> dom (userInfo blankClaims) \<and> ''avatar'' \<notin> dom (userInfo blankClaims)
   \<and> ''email'' \<in> {''name'', ''avatar'', ''email'', ''phone''}
   \<and> userInfo blankClaims ''email'' \<noteq> Some []"
proof -
  note fetch = example_fetch [of exampleDiscovery "acceptAs blankClaims"]
  note token = example_token [of exampleDiscovery "acceptAs blankClaims"
      "exampleConfig ++ exampleDiscovery" "''code''" "redirectUri exampleSession"]
  note claims = example_accept [of exampleDiscovery blankClaims "idToken \<lparr>idToken = ''code''\<rparr>"
      "exampleConfig ++ exampleDiscovery" "nonce exampleSession"]
  have b: "email blankClaims = Some []" "phone blankClaims = Some []"
    "name blankClaims = Some []" "picture blankClaims = Some []"
    by (simp_all add: blankClaims_def)
  note empty = getUserInfo_empty_values
      [where env = "exampleEnv exampleDiscovery (acceptAs blankClaims)" and config = exampleConfig
         and w = emptyWorld, OF fetch token claims]
  have m: "''email'' \<in> {''name'', ''avatar'', ''email'', ''phone''}"
    by simp
  from empty b m have "fst (getUserInfo (exampleEnv exampleDiscovery (acceptAs blankClaims))
            exampleConfig exampleSession ''code'' emptyWorld) = Inr (userInfo blankClaims)
     \<and> ''email'' \<notin> dom (userInfo blankClaims) \<and> ''phone'' \<notin> dom (userInfo blankClaims)
     \<and> ''name'' \<notin> dom (userInfo blankClaims) \<and> ''avatar'' \<notin> dom (userInfo blankClaims)
     \<and> userInfo blankClaims ''email'' \<noteq> Some []"
    by blast
  with fetch token claims b m show ?thesis by blast
qed

lemma getUserInfo_outcome:
  assumes "fetchOidcConfig env (config ''issuer'') = Inr disc"
  shows "fst (getUserInfo env config s d w) =
           (case fetchToken env (config ++ disc) d (redirectUri s) of
              Inl e \<Rightarrow> Inl e
            | Inr response \<Rightarrow>
                (case getIdTokenClaims env (idToken response) (config ++ disc) (nonce s) of
                   Inl e \<Rightarrow> Inl e
                 | Inr claims \<Rightarrow> Inr (userInfo claims)))"
  using assms by (simp add: getUserInfo_ok Let_def split: sum.splits)

lemma getUserInfo_sent:
  assumes "fetchOidcConfig env (config ''issuer'') = Inr disc"
  shows "sentRedirectUris (effects (snd (getUserInfo env config s d w)))
         = sentRedirectUris (effects w) @ [redirectUri s]"
  using assms
  by (simp add: getUserInfo_ok Let_def logEffect_def sentRedirectUris_def List.map_filter_def
      split: sum.splits)

lemma getAuthorizationUrl_remembered:
  assumes "getAuthorizationUrl env config st r c (Some rememberSession) w = (Inr url, w')"
  shows "storedSessions (effects w') = storedSessions (effects w) @
           [\<lparr>nonce = idSource env (idCount w), redirectUri = r, connectorId = c, state = st\<rparr>]"
  using getAuthorizationUrl_success [OF assms]
  by (auto simp: rememberSession_def logEffect_def storedSessions_def List.map_filter_def)

text \<open>
  C10.  When the configuration is resolved, the outcome of \<^verbatim>\<open>getUserInfo\<close> is the
  outcome of one token exchange made with the resolved configuration, the payload and the
  \<open>redirectUri\<close> of the session it was given (followed by the validation of the token
  returned): a provider that rejects this redirect URI makes the call fail whatever else is
  configured.  Hence, when that session is the one that a successful
  \<^verbatim>\<open>getAuthorizationUrl\<close> handed to a storage that keeps what it is given, the redirect
  URI sent is the one that call was given, which is the \<open>redirect_uri\<close> parameter of the
  URL it returned.
\<close>

theorem getUserInfo_redirectUri:
  assumes "fetchOidcConfig env (config ''issuer'') = Inr disc"
  shows "fst (getUserInfo env config s d w) =
           (case fetchToken env (config ++ disc) d (redirectUri s) of
              Inl e \<Rightarrow> Inl e
            | Inr response \<Rightarrow>
                (case getIdTokenClaims env (idToken response) (config ++ disc) (nonce s) of
                   Inl e \<Rightarrow> Inl e
                 | Inr claims \<Rightarrow> Inr (userInfo claims)))
       \<and> sentRedirectUris (effects (snd (getUserInfo env config s d w)))
           = sentRedirectUris (effects w) @ [redirectUri s]
       \<and> (getAuthorizationUrl env config st r c (Some rememberSession) w0 = (Inr url, w1)
            \<and> storedSessions (effects w1) = storedSessions (effects w0) @ [s]
          \<longrightarrow> redirectUri s = r
              \<and> sentRedirectUris (effects (snd (getUserInfo env config s d w)))
                  = sentRedirectUris (effects w) @ [r]
              \<and> url = jsToString ((config ++ disc) ''authorizationEndpoint'') @ ''?''
                      @ URLSearchParams_toString (queryParameters (config ++ disc) st (nonce s) r)
              \<and> (CHR ''?'' \<notin> set (jsToString ((config ++ disc) ''authorizationEndpoint''))
                   \<and> CHR ''#'' \<notin> set (jsToString ((config ++ disc) ''authorizationEndpoint''))
                 \<longrightarrow> map_of (searchParams url) ''redirect_uri'' = Some r))"
proof (intro conjI impI)
  show "fst (getUserInfo env config s d w) =
           (case fetchToken env (config ++ disc) d (redirectUri s) of
              Inl e \<Rightarrow> Inl e
            | Inr response \<Rightarrow>
                (case getIdTokenClaims env (idToken response) (config ++ disc) (nonce s) of
                   Inl e \<Rightarrow> Inl e
                 | Inr claims \<Rightarrow> Inr (userInfo claims)))"
    using assms by (rule getUserInfo_outcome)
  show sent: "sentRedirectUris (effects (snd (getUserInfo env config s d w)))
           = sentRedirectUris (effects w) @ [redirectUri s]"
    using assms by (rule getUserInfo_sent)
  assume "getAuthorizationUrl env config st r c (Some rememberSession) w0 = (Inr url, w1)
            \<and> storedSessions (effects w1) = storedSessions (effects w0) @ [s]"
  then have auth: "getAuthorizationUrl env config st r c (Some rememberSession) w0 = (Inr url, w1)"
    and stored: "storedSessions (effects w1) = storedSessions (effects w0) @ [s]"
    by blast+
  from getAuthorizationUrl_remembered [OF auth] stored
  have s: "s = \<lparr>nonce = idSource env (idCount w0), redirectUri = r, connectorId = c, state = st\<rparr>"
    by simp
  then show r: "redirectUri s = r"
    by simp
  from s have n: "nonce s = idSource env (idCount w0)"
    by simp
  from sent r show "sentRedirectUris (effects (snd (getUserInfo env config s d w)))
                = sentRedirectUris (effects w) @ [r]"
    by simp
  from getAuthorizationUrl_success [OF auth] assms n
  show u: "url = jsToString ((config ++ disc) ''authorizationEndpoint'') @ ''?''
                      @ URLSearchParams_toString (queryParameters (config ++ disc) st (nonce s) r)"
    by auto
  assume "CHR ''?'' \<notin> set (jsToString ((config ++ disc) ''authorizationEndpoint''))
          \<and> CHR ''#'' \<notin> set (jsToString ((config ++ disc) ''authorizationEndpoint''))"
  then have "searchParams url = queryParameters (config ++ disc) st (nonce s) r"
    unfolding u by (intro searchParams_appended) blast+
  then show "map_of (searchParams url) ''redirect_uri'' = Some r"
    by (simp add: queryParameters_eq)
qed

lemma strict_fetch:
  "fetchOidcConfig (strictEnv disc validate) (configWithRedirect ''issuer'') = Inr disc"
  by (simp add: strictEnv_def configWithRedirect_def)

lemma strict_authorization:
  "getAuthorizationUrl (strictEnv exampleDiscovery validate) configWithRedirect ''st1''
     ''https://app.example/cb'' ''conn1'' (Some rememberSession) emptyWorld =
   (Inr ''https://idp.example/authorize?state=st1&nonce=n&client_id=c1&response_type=code&redirect_uri=https%3A%2F%2Fapp.example%2Fcb&scope=openid+profile+email'',
    \<lparr>effects =
         [FetchOidcConfig (Some ''https://idp.example/oidc''),
          SetSession \<lparr>nonce = ''n'', redirectUri = ''https://app.example/cb'',
            connectorId = ''conn1'', state = ''st1''\<rparr>],
       idCount = 1\<rparr>)"
  by (simp add: getAuthorizationUrl_def getOidcConfig_def generateStandardId_def logEffect_def
      Let_def strictEnv_def configWithRedirect_def exampleDiscovery_def emptyWorld_def
      rememberSession_def jsToString_def toString_queryParameters
      urlencode_def urlencodeByte_def isUrlSafe_def hexDigit_def)

theorem getUserInfo_redirectUri_witness:
  "fetchOidcConfig (strictEnv exampleDiscovery (acceptAs goodClaims)) (configWithRedirect ''issuer'')
     = Inr exampleDiscovery
   \<and> configWithRedirect ''redirectUri'' = Some ''https://other.example/cb''
   \<and> redirectUri exampleSession = ''https://app.example/cb''
   \<and> fetchToken (strictEnv exampleDiscovery (acceptAs goodClaims))
         (configWithRedirect ++ exampleDiscovery) ''code'' ''https://app.example/cb''
       = Inr \<lparr>idToken = ''code''\<rparr>
   \<and> fetchToken (strictEnv exampleDiscovery (acceptAs goodClaims))
         (configWithRedirect ++ exampleDiscovery) ''code'' ''https://other.example/cb''
       = Inl (ConnectorError InvalidAuthCode None)
   \<and> fst (getUserInfo (strictEnv exampleDiscovery (acceptAs goodClaims)) configWithRedirect
            exampleSession ''code'' emptyWorld) = Inr (userInfo goodClaims)
   \<and> fst (getUserInfo (strictEnv exampleDiscovery (acceptAs goodClaims)) configWithRedirect
            (exampleSession\<lparr>redirectUri := ''https://other.example/cb''\<rparr>) ''code'' emptyWorld)
       = Inl (ConnectorError InvalidAuthCode None)
   \<and> getAuthorizationUrl (strictEnv exampleDiscovery (acceptAs goodClaims)) configWithRedirect ''st1''
       ''https://app.example/cb'' ''conn1'' (Some rememberSession) emptyWorld =
     (Inr ''https://idp.example/authorize?state=st1&nonce=n&client_id=c1&response_type=code&redirect_uri=https%3A%2F%2Fapp.example%2Fcb&scope=openid+profile+email'',
      \<lparr>effects =
         [FetchOidcConfig (Some ''https://idp.example/oidc''),
          SetSession \<lparr>nonce = ''n'', redirectUri = ''https://app.example/cb'',
            connectorId = ''conn1'', state = ''st1''\<rparr>],
       idCount = 1\<rparr>)
   \<and> storedSessions (effects
         \<lparr>effects =
         [FetchOidcConfig (Some ''https://idp.example/oidc''),
          SetSession \<lparr>nonce = ''n'', redirectUri = ''https://app.example/cb'',
            connectorId = ''conn1'', state = ''st1''\<rparr>],
       idCount = 1\<rparr>
         :: string effect list)
       = storedSessions (effects emptyWorld) @ [exampleSession]
   \<and> sentRedirectUris
         (effects (snd (getUserInfo (strictEnv exampleDiscovery (acceptAs goodClaims))
                          configWithRedirect exampleSession ''code'' emptyWorld)))
       = [''https://app.example/cb'']
   \<and> map_of (searchParams ''https://idp.example/authorize?state=st1&nonce=n&client_id=c1&response_type=code&redirect_uri=https%3A%2F%2Fapp.example%2Fcb&scope=openid+profile+email'')
         ''redirect_uri'' = Some ''https://app.example/cb''"
proof -
  note fetch = strict_fetch [of exampleDiscovery "acceptAs goodClaims"]
  note auth = strict_authorization [of "acceptAs goodClaims"]
  have cfg: "configWithRedirect ''redirectUri'' = Some ''https://other.example/cb''"
    by (simp add: configWithRedirect_def)
  have rs: "redirectUri exampleSession = ''https://app.example/cb''"
    by (simp add: exampleSession_def)
  have accepted: "fetchToken (strictEnv exampleDiscovery (acceptAs goodClaims))
         (configWithRedirect ++ exampleDiscovery) ''code'' ''https://app.example/cb''
       = Inr \<lparr>idToken = ''code''\<rparr>"
    and refused: "fetchToken (strictEnv exampleDiscovery (acceptAs goodClaims))
         (configWithRedirect ++ exampleDiscovery) ''code'' ''https://other.example/cb''
       = Inl (ConnectorError InvalidAuthCode None)"
    by (simp_all add: strictEnv_def)
  have validated: "getIdTokenClaims (strictEnv exampleDiscovery (acceptAs goodClaims)) t c n = Inr goodClaims" for t c n
    by (simp add: strictEnv_def acceptAs_def)
  have stored: "storedSessions (effects
         \<lparr>effects =
         [FetchOidcConfig (Some ''https://idp.example/oidc''),
          SetSession \<lparr>nonce = ''n'', redirectUri = ''https://app.example/cb'',
            connectorId = ''conn1'', state = ''st1''\<rparr>],
       idCount = 1\<rparr>
         :: string effect list)
       = storedSessions (effects emptyWorld) @ [exampleSession]"
    by (simp add: storedSessions_def List.map_filter_def emptyWorld_def exampleSession_def)
  have e: "jsToString ((configWithRedirect ++ exampleDiscovery) ''authorizationEndpoint'')
      = ''https://idp.example/authorize''"
    by (simp add: configWithRedirect_def exampleDiscovery_def jsToString_def)
  have plain: "CHR ''?'' \<notin> set ''https://idp.example/authorize''
      \<and> CHR ''#'' \<notin> set ''https://idp.example/authorize''"
    by simp
  have empty: "sentRedirectUris (effects emptyWorld) = []"
    by (simp add: sentRedirectUris_def List.map_filter_def emptyWorld_def)
  note used = getUserInfo_redirectUri
      [where env = "strictEnv exampleDiscovery (acceptAs goodClaims)"
         and config = configWithRedirect and d = "''code''" and w = emptyWorld, OF fetch]
  from used [where s = exampleSession, THEN conjunct1]
  have ok: "fst (getUserInfo (strictEnv exampleDiscovery (acceptAs goodClaims)) configWithRedirect
            exampleSession ''code'' emptyWorld) = Inr (userInfo goodClaims)"
    by (simp add: rs accepted validated)
  from used [where s = "exampleSession\<lparr>redirectUri := ''https://other.example/cb''\<rparr>",
      THEN conjunct1]
  have ko: "fst (getUserInfo (strictEnv exampleDiscovery (acceptAs goodClaims)) configWithRedirect
            (exampleSession\<lparr>redirectUri := ''https://other.example/cb''\<rparr>) ''code'' emptyWorld)
       = Inl (ConnectorError InvalidAuthCode None)"
    by (simp add: refused)
  note trip = used [where s = exampleSession and ?w0.0 = emptyWorld, THEN conjunct2,
      THEN conjunct2, rule_format, OF conjI, OF auth stored]
  from trip [THEN conjunct2, THEN conjunct1] empty
  have sent: "sentRedirectUris
         (effects (snd (getUserInfo (strictEnv exampleDiscovery (acceptAs goodClaims))
                          configWithRedirect exampleSession ''code'' emptyWorld)))
       = [''https://app.example/cb'']"
    by simp
  from trip [THEN conjunct2, THEN conjunct2, THEN conjunct2] plain
  have param: "map_of (searchParams ''https://idp.example/authorize?state=st1&nonce=n&client_id=c1&response_type=code&redirect_uri=https%3A%2F%2Fapp.example%2Fcb&scope=openid+profile+email'')
         ''redirect_uri'' = Some ''https://app.example/cb''"
    by (simp only: e) simp
  from fetch cfg rs accepted refused ok ko auth stored sent param show ?thesis
    by (intro conjI)
qed

subsection \<open>Validation failures\<close>

lemma firstFailure_Some:
  assumes "\<not> stepHolds v token oidcConfig stored step"
  shows "\<exists>i < length validationSequence.
           firstFailure v token oidcConfig stored = Some (validationSequence ! i)
           \<and> \<not> stepHolds v token oidcConfig stored (validationSequence ! i)
           \<and> (\<forall>j < i. stepHolds v token oidcConfig stored (validationSequence ! j))"
proof -
  have "step \<in> set validationSequence"
    by (cases step) (simp_all add: validationSequence_def)
  with assms have "firstFailure v token oidcConfig stored \<noteq> None"
    by (auto simp: firstFailure_def find_None_iff)
  then obtain x where x: "firstFailure v token oidcConfig stored = Some x"
    by blast
  then have "find (\<lambda>step. \<not> stepHolds v token oidcConfig stored step) validationSequence = Some x"
    by (simp add: firstFailure_def)
  then obtain i where "i < length validationSequence"
    "\<not> stepHolds v token oidcConfig stored (validationSequence ! i)"
    "x = validationSequence ! i"
    "\<forall>j < i. \<not> \<not> stepHolds v token oidcConfig stored (validationSequence ! j)"
    unfolding find_Some_iff by blast
  with x show ?thesis by auto
qed

lemma specGetIdTokenClaims_failure:
  assumes "\<not> stepHolds v token oidcConfig stored step"
  shows "specGetIdTokenClaims v token oidcConfig stored = Inl (ConnectorError InvalidIdToken None)"
  using firstFailure_Some [OF assms] by (auto simp: specGetIdTokenClaims_def)

lemma example_spec_validator:
  "getIdTokenClaims (exampleEnv disc (specGetIdTokenClaims v)) = specGetIdTokenClaims v"
  by (simp add: exampleEnv_def)

lemma example_resolved:
  "(exampleConfig ++ exampleDiscovery) ''issuer'' = Some ''https://idp.example/oidc''"
  "(exampleConfig ++ exampleDiscovery) ''clientId'' = Some ''c1''"
  by (simp_all add: exampleConfig_def exampleDiscovery_def)

lemma example_first_failures:
  "firstFailure exampleVerifier ''forged'' (exampleConfig ++ exampleDiscovery) ''n'' = Some Signature"
  "firstFailure exampleVerifier ''foreign'' (exampleConfig ++ exampleDiscovery) ''n'' = Some Issuer"
  "firstFailure exampleVerifier ''expired'' (exampleConfig ++ exampleDiscovery) ''n'' = Some Expiration"
  "firstFailure exampleVerifier ''replayed'' (exampleConfig ++ exampleDiscovery) ''n'' = Some Nonce"
  "firstFailure exampleVerifier ''valid'' (exampleConfig ++ exampleDiscovery) ''n'' = None"
  by (simp_all add: firstFailure_def validationSequence_def stepHolds_def example_resolved
      exampleVerifier_def goodClaims_def)

lemma example_resolved_issuer:
  "(exampleConfig ++ discoveryWithIssuer) ''issuer'' = Some ''https://idp.example/oidc/''"
  "(exampleConfig ++ discoveryWithIssuer) ''clientId'' = Some ''c1''"
  by (simp_all add: exampleConfig_def discoveryWithIssuer_def)

text \<open>
  C1, as the code has it.  With the validation of the identity token as the spec describes
  it: when the configuration is resolved and the token exchange returns a token, and the
  signature of the token fails verification, or its issuer claim is not the issuer of the
  resolved configuration (the discovered issuer when the discovery document names one, the
  configured issuer otherwise), or it is expired, or its nonce claim is not the nonce of the
  session, then \<^verbatim>\<open>getUserInfo\<close> fails with \<open>InvalidIdToken\<close> and returns no UserInfo,
  whatever the other checks would say; the check that decides is the first one of the
  sequence that fails, all checks before it having passed.
\<close>

theorem getUserInfo_invalid_id_token:
  assumes "getIdTokenClaims env = specGetIdTokenClaims v"
    and "fetchOidcConfig env (config ''issuer'') = Inr disc"
    and "fetchToken env (config ++ disc) d (redirectUri s) = Inr response"
    and "\<not> verifySignature v (idToken response) (config ++ disc)
         \<or> (config ++ disc) ''issuer'' \<noteq> Some (issuerClaim (decodeClaims v (idToken response)))
         \<or> expiration (decodeClaims v (idToken response)) \<le> currentTime v
         \<or> nonceClaim (decodeClaims v (idToken response)) \<noteq> Some (nonce s)"
  shows "fst (getUserInfo env config s d w) = Inl (ConnectorError InvalidIdToken None)
       \<and> (\<exists>i < length validationSequence.
            firstFailure v (idToken response) (config ++ disc) (nonce s)
              = Some (validationSequence ! i)
            \<and> \<not> stepHolds v (idToken response) (config ++ disc) (nonce s)
                  (validationSequence ! i)
            \<and> (\<forall>j < i. stepHolds v (idToken response) (config ++ disc) (nonce s)
                          (validationSequence ! j)))"
proof -
  from assms(4) obtain step where
    fails: "\<not> stepHolds v (idToken response) (config ++ disc) (nonce s) step"
  proof (elim disjE)
    assume "\<not> verifySignature v (idToken response) (config ++ disc)"
    then have "\<not> stepHolds v (idToken response) (config ++ disc) (nonce s) Signature"
      by (simp add: stepHolds_def)
    then show ?thesis by (rule that)
  next
    assume "(config ++ disc) ''issuer'' \<noteq> Some (issuerClaim (decodeClaims v (idToken response)))"
    then have "\<not> stepHolds v (idToken response) (config ++ disc) (nonce s) Issuer"
      by (simp add: stepHolds_def)
    then show ?thesis by (rule that)
  next
    assume "expiration (decodeClaims v (idToken response)) \<le> currentTime v"
    then have "\<not> stepHolds v (idToken response) (config ++ disc) (nonce s) Expiration"
      by (simp add: stepHolds_def)
    then show ?thesis by (rule that)
  next
    assume "nonceClaim (decodeClaims v (idToken response)) \<noteq> Some (nonce s)"
    then have "\<not> stepHolds v (idToken response) (config ++ disc) (nonce s) Nonce"
      by (simp add: stepHolds_def)
    then show ?thesis by (rule that)
  qed
  from specGetIdTokenClaims_failure [OF fails] assms(1)
  have "getIdTokenClaims env (idToken response) (config ++ disc) (nonce s)
      = Inl (ConnectorError InvalidIdToken None)"
    by simp
  with assms(2,3) have "fst (getUserInfo env config s d w) = Inl (ConnectorError InvalidIdToken None)"
    by (simp add: getUserInfo_rejected)
  with firstFailure_Some [OF fails] show ?thesis by blast
qed

theorem getUserInfo_invalid_id_token_witness:
  "getIdTokenClaims (exampleEnv exampleDiscovery (specGetIdTokenClaims exampleVerifier))
     = specGetIdTokenClaims exampleVerifier
   \<and> fetchOidcConfig (exampleEnv exampleDiscovery (specGetIdTokenClaims exampleVerifier))
       (exampleConfig ''issuer'') = Inr exampleDiscovery
   \<and> getIdTokenClaims (exampleEnv discoveryWithIssuer (specGetIdTokenClaims exampleVerifier))
     = specGetIdTokenClaims exampleVerifier
   \<and> fetchOidcConfig (exampleEnv discoveryWithIssuer (specGetIdTokenClaims exampleVerifier))
       (exampleConfig ''issuer'') = Inr discoveryWithIssuer
   \<and> (exampleConfig ++ discoveryWithIssuer) ''issuer'' = Some ''https://idp.example/oidc/''
   \<and> fetchToken (exampleEnv exampleDiscovery (specGetIdTokenClaims exampleVerifier))
       (exampleConfig ++ exampleDiscovery) ''forged'' (redirectUri exampleSession) = Inr \<lparr>idToken = ''forged''\<rparr>
   \<and> \<not> verifySignature exampleVerifier ''forged'' (exampleConfig ++ exampleDiscovery)
   \<and> filter (\<lambda>step. \<not> stepHolds exampleVerifier ''forged'' (exampleConfig ++ exampleDiscovery) (nonce exampleSession) step)
         validationSequence = [Signature]
   \<and> fst (getUserInfo (exampleEnv exampleDiscovery (specGetIdTokenClaims exampleVerifier))
            exampleConfig exampleSession ''forged'' emptyWorld)
       = Inl (ConnectorError InvalidIdToken None)
   \<and> fetchToken (exampleEnv exampleDiscovery (specGetIdTokenClaims exampleVerifier))
       (exampleConfig ++ exampleDiscovery) ''foreign'' (redirectUri exampleSession) = Inr \<lparr>idToken = ''foreign''\<rparr>
   \<and> (exampleConfig ++ exampleDiscovery) ''issuer'' \<noteq> Some (issuerClaim (decodeClaims exampleVerifier ''foreign''))
   \<and> filter (\<lambda>step. \<not> stepHolds exampleVerifier ''foreign'' (exampleConfig ++ exampleDiscovery) (nonce exampleSession) step)
         validationSequence = [Issuer]
   \<and> fst (getUserInfo (exampleEnv exampleDiscovery (specGetIdTokenClaims exampleVerifier))
            exampleConfig exampleSession ''foreign'' emptyWorld)
       = Inl (ConnectorError InvalidIdToken None)
   \<and> fetchToken (exampleEnv exampleDiscovery (specGetIdTokenClaims exampleVerifier))
       (exampleConfig ++ exampleDiscovery) ''expired'' (redirectUri exampleSession) = Inr \<lparr>idToken = ''expired''\<rparr>
   \<and> expiration (decodeClaims exampleVerifier ''expired'') \<le> currentTime exampleVerifier
   \<and> filter (\<lambda>step. \<not> stepHolds exampleVerifier ''expired'' (exampleConfig ++ exampleDiscovery) (nonce exampleSession) step)
         validationSequence = [Expiration]
   \<and> fst (getUserInfo (exampleEnv exampleDiscovery (specGetIdTokenClaims exampleVerifier))
            exampleConfig exampleSession ''expired'' emptyWorld)
       = Inl (ConnectorError InvalidIdToken None)
   \<and> fetchToken (exampleEnv exampleDiscovery (specGetIdTokenClaims exampleVerifier))
       (exampleConfig ++ exampleDiscovery) ''replayed'' (redirectUri exampleSession) = Inr \<lparr>idToken = ''replayed''\<rparr>
   \<and> nonceClaim (decodeClaims exampleVerifier ''replayed'') \<noteq> Some (nonce exampleSession)
   \<and> filter (\<lambda>step. \<not> stepHolds exampleVerifier ''replayed'' (exampleConfig ++ exampleDiscovery) (nonce exampleSession) step)
         validationSequence = [Nonce]
   \<and> fst (getUserInfo (exampleEnv exampleDiscovery (specGetIdTokenClaims exampleVerifier))
            exampleConfig exampleSession ''replayed'' emptyWorld)
       = Inl (ConnectorError InvalidIdToken None)
   \<and> fetchToken (exampleEnv discoveryWithIssuer (specGetIdTokenClaims exampleVerifier))
       (exampleConfig ++ discoveryWithIssuer) ''valid'' (redirectUri exampleSession) = Inr \<lparr>idToken = ''valid''\<rparr>
   \<and> (exampleConfig ++ discoveryWithIssuer) ''issuer'' \<noteq> Some (issuerClaim (decodeClaims exampleVerifier ''valid''))
   \<and> filter (\<lambda>step. \<not> stepHolds exampleVerifier ''valid'' (exampleConfig ++ discoveryWithIssuer) (nonce exampleSession) step)
         validationSequence = [Issuer]
   \<and> fst (getUserInfo (exampleEnv discoveryWithIssuer (specGetIdTokenClaims exampleVerifier))
            exampleConfig exampleSession ''valid'' emptyWorld)
       = Inl (ConnectorError InvalidIdToken None)"
proof -
  note validator_exampleDiscovery = example_spec_validator [of exampleDiscovery exampleVerifier]
  note fetch_exampleDiscovery = example_fetch [of exampleDiscovery "specGetIdTokenClaims exampleVerifier"]
  note validator_discoveryWithIssuer = example_spec_validator [of discoveryWithIssuer exampleVerifier]
  note fetch_discoveryWithIssuer = example_fetch [of discoveryWithIssuer "specGetIdTokenClaims exampleVerifier"]
  note resolved = example_resolved_issuer
  note token_forged = example_token [of exampleDiscovery "specGetIdTokenClaims exampleVerifier"
      "exampleConfig ++ exampleDiscovery" "''forged''" "redirectUri exampleSession"]
  have fails_forged: "\<not> verifySignature exampleVerifier ''forged'' (exampleConfig ++ exampleDiscovery)"
    by (simp add: exampleVerifier_def goodClaims_def exampleSession_def example_resolved
        example_resolved_issuer)
  have only_forged: "filter (\<lambda>step. \<not> stepHolds exampleVerifier ''forged'' (exampleConfig ++ exampleDiscovery) (nonce exampleSession) step)
         validationSequence = [Signature]"
    by (simp add: validationSequence_def stepHolds_def exampleVerifier_def goodClaims_def
        exampleSession_def example_resolved example_resolved_issuer)
  have rejected_forged: "fst (getUserInfo (exampleEnv exampleDiscovery (specGetIdTokenClaims exampleVerifier))
            exampleConfig exampleSession ''forged'' emptyWorld)
       = Inl (ConnectorError InvalidIdToken None)"
    using getUserInfo_invalid_id_token
        [where env = "exampleEnv exampleDiscovery (specGetIdTokenClaims exampleVerifier)"
           and config = exampleConfig and s = exampleSession and w = emptyWorld,
         OF validator_exampleDiscovery fetch_exampleDiscovery token_forged]
      fails_forged
    by simp
  note token_foreign = example_token [of exampleDiscovery "specGetIdTokenClaims exampleVerifier"
      "exampleConfig ++ exampleDiscovery" "''foreign''" "redirectUri exampleSession"]
  have fails_foreign: "(exampleConfig ++ exampleDiscovery) ''issuer'' \<noteq> Some (issuerClaim (decodeClaims exampleVerifier ''foreign''))"
    by (simp add: exampleVerifier_def goodClaims_def exampleSession_def example_resolved
        example_resolved_issuer)
  have only_foreign: "filter (\<lambda>step. \<not> stepHolds exampleVerifier ''foreign'' (exampleConfig ++ exampleDiscovery) (nonce exampleSession) step)
         validationSequence = [Issuer]"
    by (simp add: validationSequence_def stepHolds_def exampleVerifier_def goodClaims_def
        exampleSession_def example_resolved example_resolved_issuer)
  have rejected_foreign: "fst (getUserInfo (exampleEnv exampleDiscovery (specGetIdTokenClaims exampleVerifier))
            exampleConfig exampleSession ''foreign'' emptyWorld)
       = Inl (ConnectorError InvalidIdToken None)"
    using getUserInfo_invalid_id_token
        [where env = "exampleEnv exampleDiscovery (specGetIdTokenClaims exampleVerifier)"
           and config = exampleConfig and s = exampleSession and w = emptyWorld,
         OF validator_exampleDiscovery fetch_exampleDiscovery token_foreign]
      fails_foreign
    by simp
  note token_expired = example_token [of exampleDiscovery "specGetIdTokenClaims exampleVerifier"
      "exampleConfig ++ exampleDiscovery" "''expired''" "redirectUri exampleSession"]
  have fails_expired: "expiration (decodeClaims exampleVerifier ''expired'') \<le> currentTime exampleVerifier"
    by (simp add: exampleVerifier_def goodClaims_def exampleSession_def example_resolved
        example_resolved_issuer)
  have only_expired: "filter (\<lambda>step. \<not> stepHolds exampleVerifier ''expired'' (exampleConfig ++ exampleDiscovery) (nonce exampleSession) step)
         validationSequence = [Expiration]"
    by (simp add: validationSequence_def stepHolds_def exampleVerifier_def goodClaims_def
        exampleSession_def example_resolved example_resolved_issuer)
  have rejected_expired: "fst (getUserInfo (exampleEnv exampleDiscovery (specGetIdTokenClaims exampleVerifier))
            exampleConfig exampleSession ''expired'' emptyWorld)
       = Inl (ConnectorError InvalidIdToken None)"
    using getUserInfo_invalid_id_token
        [where env = "exampleEnv exampleDiscovery (specGetIdTokenClaims exampleVerifier)"
           and config = exampleConfig and s = exampleSession and w = emptyWorld,
         OF validator_exampleDiscovery fetch_exampleDiscovery token_expired]
      fails_expired
    by simp
  note token_replayed = example_token [of exampleDiscovery "specGetIdTokenClaims exampleVerifier"
      "exampleConfig ++ exampleDiscovery" "''replayed''" "redirectUri exampleSession"]
  have fails_replayed: "nonceClaim (decodeClaims exampleVerifier ''replayed'') \<noteq> Some (nonce exampleSession)"
    by (simp add: exampleVerifier_def goodClaims_def exampleSession_def example_resolved
        example_resolved_issuer)
  have only_replayed: "filter (\<lambda>step. \<not> stepHolds exampleVerifier ''replayed'' (exampleConfig ++ exampleDiscovery) (nonce exampleSession) step)
         validationSequence = [Nonce]"
    by (simp add: validationSequence_def stepHolds_def exampleVerifier_def goodClaims_def
        exampleSession_def example_resolved example_resolved_issuer)
  have rejected_replayed: "fst (getUserInfo (exampleEnv exampleDiscovery (specGetIdTokenClaims exampleVerifier))
            exampleConfig exampleSession ''replayed'' emptyWorld)
       = Inl (ConnectorError InvalidIdToken None)"
    using getUserInfo_invalid_id_token
        [where env = "exampleEnv exampleDiscovery (specGetIdTokenClaims exampleVerifier)"
           and config = exampleConfig and s = exampleSession and w = emptyWorld,
         OF validator_exampleDiscovery fetch_exampleDiscovery token_replayed]
      fails_replayed
    by simp
  note token_valid = example_token [of discoveryWithIssuer "specGetIdTokenClaims exampleVerifier"
      "exampleConfig ++ discoveryWithIssuer" "''valid''" "redirectUri exampleSession"]
  have fails_valid: "(exampleConfig ++ discoveryWithIssuer) ''issuer'' \<noteq> Some (issuerClaim (decodeClaims exampleVerifier ''valid''))"
    by (simp add: exampleVerifier_def goodClaims_def exampleSession_def example_resolved
        example_resolved_issuer)
  have only_valid: "filter (\<lambda>step. \<not> stepHolds exampleVerifier ''valid'' (exampleConfig ++ discoveryWithIssuer) (nonce exampleSession) step)
         validationSequence = [Issuer]"
    by (simp add: validationSequence_def stepHolds_def exampleVerifier_def goodClaims_def
        exampleSession_def example_resolved example_resolved_issuer)
  have rejected_valid: "fst (getUserInfo (exampleEnv discoveryWithIssuer (specGetIdTokenClaims exampleVerifier))
            exampleConfig exampleSession ''valid'' emptyWorld)
       = Inl (ConnectorError InvalidIdToken None)"
    using getUserInfo_invalid_id_token
        [where env = "exampleEnv discoveryWithIssuer (specGetIdTokenClaims exampleVerifier)"
           and config = exampleConfig and s = exampleSession and w = emptyWorld,
         OF validator_discoveryWithIssuer fetch_discoveryWithIssuer token_valid]
      fails_valid
    by simp
  from validator_exampleDiscovery fetch_exampleDiscovery validator_discoveryWithIssuer fetch_discoveryWithIssuer
    resolved token_forged fails_forged only_forged
    rejected_forged token_foreign fails_foreign only_foreign
    rejected_foreign token_expired fails_expired only_expired
    rejected_expired token_replayed fails_replayed only_replayed
    rejected_replayed token_valid fails_valid only_valid
    rejected_valid
  show ?thesis by (intro conjI)
qed

text \<open>
  C1, as the specification states it, fails for the issuer: the discovery document may name
  an issuer that differs from the configured one, and the resolved configuration then has
  the discovered one.  A token whose issuer claim is not the configured issuer, with a good
  signature, not expired and with the nonce of the session, is then accepted and a UserInfo
  is returned.
\<close>

theorem getUserInfo_configured_issuer_counterexample:
  "exampleConfig ''issuer'' = Some ''https://idp.example/oidc''
   \<and> issuerClaim (decodeClaims exampleVerifier ''slashed'') = ''https://idp.example/oidc/''
   \<and> verifySignature exampleVerifier ''slashed'' (exampleConfig ++ discoveryWithIssuer)
   \<and> currentTime exampleVerifier < expiration (decodeClaims exampleVerifier ''slashed'')
   \<and> nonceClaim (decodeClaims exampleVerifier ''slashed'') = Some (nonce exampleSession)
   \<and> fst (getUserInfo (exampleEnv discoveryWithIssuer (specGetIdTokenClaims exampleVerifier))
            exampleConfig exampleSession ''slashed'' emptyWorld)
       = Inr (userInfo (decodeClaims exampleVerifier ''slashed''))"
proof -
  have facts: "exampleConfig ''issuer'' = Some ''https://idp.example/oidc''"
    "issuerClaim (decodeClaims exampleVerifier ''slashed'') = ''https://idp.example/oidc/''"
    "verifySignature exampleVerifier ''slashed'' (exampleConfig ++ discoveryWithIssuer)"
    "currentTime exampleVerifier < expiration (decodeClaims exampleVerifier ''slashed'')"
    "nonceClaim (decodeClaims exampleVerifier ''slashed'') = Some (nonce exampleSession)"
    by (simp_all add: exampleConfig_def exampleVerifier_def goodClaims_def exampleSession_def)
  have "firstFailure exampleVerifier ''slashed'' (exampleConfig ++ discoveryWithIssuer)
          (nonce exampleSession) = None"
    by (simp add: firstFailure_def validationSequence_def stepHolds_def example_resolved_issuer
        exampleVerifier_def goodClaims_def exampleSession_def)
  then have "getIdTokenClaims (exampleEnv discoveryWithIssuer (specGetIdTokenClaims exampleVerifier))
          (idToken \<lparr>idToken = ''slashed''\<rparr>) (exampleConfig ++ discoveryWithIssuer)
          (nonce exampleSession) = Inr (decodeClaims exampleVerifier ''slashed'')"
    by (simp add: example_spec_validator specGetIdTokenClaims_def)
  with example_fetch example_token
  have "fst (getUserInfo (exampleEnv discoveryWithIssuer (specGetIdTokenClaims exampleVerifier))
            exampleConfig exampleSession ''slashed'' emptyWorld)
       = Inr (userInfo (decodeClaims exampleVerifier ''slashed''))"
    by (rule getUserInfo_claims)
  with facts show ?thesis by (intro conjI)
qed

lemma example_valid_token:
  "fst (getUserInfo (exampleEnv exampleDiscovery (specGetIdTokenClaims exampleVerifier))
          exampleConfig exampleSession ''valid'' emptyWorld) = Inr (userInfo goodClaims)"
proof -
  have "getIdTokenClaims (exampleEnv exampleDiscovery (specGetIdTokenClaims exampleVerifier))
          (idToken \<lparr>idToken = ''valid''\<rparr>) (exampleConfig ++ exampleDiscovery)
          (nonce exampleSession) = Inr goodClaims"
    by (simp add: example_spec_validator specGetIdTokenClaims_def exampleSession_def
        example_first_failures) (simp add: exampleVerifier_def)
  with example_fetch example_token show ?thesis
    by (rule getUserInfo_claims)
qed

end
